theory Spec2Isabelle
  imports Main "HOL-Library.AList"
begin

unbundle bit_operations_syntax

section \<open>Python string formatting used by Networks.py\<close>

text \<open>
  Python integers are unbounded, so they are \<open>int\<close>; Python 2 \<open>str\<close> is a byte
  string, so it is \<open>string\<close>. The conversions \<open>%x\<close>, \<open>%d\<close>, \<open>{0:02x}\<close> and
  \<open>str.zfill\<close> are written out, sign included.
\<close>

definition hexdigit :: "nat \<Rightarrow> char" where
  \<comment> \<open>the digit of a value below 16\<close>
  "hexdigit d = ''0123456789abcdef'' ! d"

fun hex_nat :: "nat \<Rightarrow> string" where
  "hex_nat n = (if n < 16 then [hexdigit n] else hex_nat (n div 16) @ [hexdigit (n mod 16)])"

fun dec_nat :: "nat \<Rightarrow> string" where
  "dec_nat n = (if n < 10 then [hexdigit n] else dec_nat (n div 10) @ [hexdigit (n mod 10)])"

declare hex_nat.simps [simp del] dec_nat.simps [simp del]

definition fmt_x :: "int \<Rightarrow> string" where
  \<comment> \<open>\<open>"%x" % i\<close>\<close>
  "fmt_x i = (if i < 0 then CHR ''-'' # hex_nat (nat (- i)) else hex_nat (nat i))"

definition fmt_d :: "int \<Rightarrow> string" where
  \<comment> \<open>\<open>"%d" % i\<close> and \<open>str(i)\<close>\<close>
  "fmt_d i = (if i < 0 then CHR ''-'' # dec_nat (nat (- i)) else dec_nat (nat i))"

definition zfill :: "string \<Rightarrow> int \<Rightarrow> string" where
  \<comment> \<open>\<open>s.zfill(w)\<close>: zeros go after a leading sign; \<open>s\<close> is returned when \<open>w \<le> len(s)\<close>\<close>
  "zfill s w =
     (if w \<le> int (length s) then s
      else (case s of
              [] \<Rightarrow> replicate (nat w) (CHR ''0'')
            | c # cs \<Rightarrow>
                if c = CHR ''-'' \<or> c = CHR ''+''
                then c # replicate (nat w - length s) (CHR ''0'') @ cs
                else replicate (nat w - length s) (CHR ''0'') @ s))"

definition fmt_02x :: "int \<Rightarrow> string" where
  \<comment> \<open>\<open>'{0:02x}'.format(i)\<close> and \<open>"%02x" % i\<close>: sign-aware zero padding to width 2\<close>
  "fmt_02x i = zfill (fmt_x i) 2"

fun slices2 :: "string \<Rightarrow> string list" where
  \<comment> \<open>\<open>s[i:i+2] for i in xrange(0, len(s), 2)\<close>\<close>
  "slices2 [] = []"
| "slices2 [a] = [[a]]"
| "slices2 (a # b # cs) = [a, b] # slices2 cs"

fun join :: "string \<Rightarrow> string list \<Rightarrow> string" where
  \<comment> \<open>\<open>sep.join(parts)\<close>\<close>
  "join sep [] = []"
| "join sep [p] = p"
| "join sep (p # q # ps) = p @ sep @ join sep (q # ps)"

definition strip_colons :: "string \<Rightarrow> string" where
  \<comment> \<open>\<open>s.replace(':', '')\<close>\<close>
  "strip_colons s = filter (\<lambda>c. c \<noteq> CHR '':'') s"

section \<open>Cluster descriptor\<close>

text \<open>
  The cluster descriptor is consumed, not owned, by Networks.py: an ordered list of VMs,
  each with its rank, the rank and name of the host it runs on, and the names of the
  networks it is attached to.
\<close>

record vm =
  vm_rank :: int
  vm_host_rank :: int
  vm_host :: string
  vm_networks :: "string list"

section \<open>Deterministic MAC addresses and GUIDs\<close>

definition is_hexchar :: "char \<Rightarrow> bool" where
  \<comment> \<open>the character class \<open>[0-9a-fA-F]\<close>\<close>
  "is_hexchar c = (let n = (of_char c :: nat) in
     (48 \<le> n \<and> n \<le> 57) \<or> (97 \<le> n \<and> n \<le> 102) \<or> (65 \<le> n \<and> n \<le> 70))"

fun mac_prefix_groups :: "nat \<Rightarrow> string \<Rightarrow> bool" where
  \<comment> \<open>at most \<open>k\<close> groups \<open>hh:\<close>, then \<open>hh\<close>, then the end of the string (\<open>$\<close> also
      matches before one final newline)\<close>
  "mac_prefix_groups k (a # b # rest) =
     (is_hexchar a \<and> is_hexchar b \<and>
      (case rest of
         [] \<Rightarrow> True
       | c # rest' \<Rightarrow>
           (c = CHR 0x0A \<and> rest' = []) \<or>
           (c = CHR '':'' \<and> (case k of 0 \<Rightarrow> False | Suc j \<Rightarrow> mac_prefix_groups j rest'))))"
| "mac_prefix_groups k _ = False"

definition mac_prefix_ok :: "string \<Rightarrow> bool" where
  \<comment> \<open>the schema's pattern for \<open>mac-prefix\<close>: \<open>^([0-9a-fA-F]{2}:){0,3}[0-9a-fA-F]{2}$\<close>\<close>
  "mac_prefix_ok p = mac_prefix_groups 3 p"

definition mac_prefix_len :: "string \<Rightarrow> nat" where
  "mac_prefix_len prefix = length (strip_colons prefix)"

definition gen_vm_hwaddr :: "string \<Rightarrow> vm \<Rightarrow> string" where
  \<comment> \<open>\<open>VPVNetwork._gen_vm_hwaddr\<close>, with \<open>self._mac_prefix\<close> as first argument\<close>
  "gen_vm_hwaddr mac_prefix v =
     (let hw_prefix = mac_prefix;
          prefix_len = int (length (strip_colons hw_prefix));
          suffix_len = 12 - prefix_len;
          hw_suffix = zfill (fmt_x (vm_rank v)) suffix_len;
          hw_suffix = join '':'' (slices2 hw_suffix)
      in hw_prefix @ '':'' @ hw_suffix)"

definition vm_get_guid :: "vm \<Rightarrow> int \<Rightarrow> string" where
  "vm_get_guid v pkey_id =
     (let pkey_high = pkey_id div 0x100;
          pkey_low = pkey_id mod 0x100;
          vm_high = vm_rank v div 0x100;
          vm_low = vm_rank v mod 0x100
      in ''0xc0cc'' @ fmt_02x pkey_high @ fmt_02x pkey_low @ ''00'' @
         fmt_02x vm_high @ fmt_02x vm_low @ ''00'')"

definition vm_get_node_guid :: "vm \<Rightarrow> int \<Rightarrow> string" where
  "vm_get_node_guid v pkey_id =
     (let pkey_high = pkey_id div 0x100;
          pkey_low = pkey_id mod 0x100;
          vm_high = vm_rank v div 0x100;
          vm_low = vm_rank v mod 0x100
      in ''0xd0cc'' @ fmt_02x pkey_high @ fmt_02x pkey_low @ ''00'' @
         fmt_02x vm_high @ fmt_02x vm_low @ ''00'')"

definition hexval_char :: "char \<Rightarrow> nat" where
  "hexval_char c = (let n = (of_char c :: nat) in
     if 48 \<le> n \<and> n \<le> 57 then n - 48 else if 97 \<le> n \<and> n \<le> 102 then n - 87 else n - 55)"

definition hexval :: "string \<Rightarrow> nat" where
  \<comment> \<open>the number a string of hexadecimal digits denotes\<close>
  "hexval s = foldl (\<lambda>a c. 16 * a + hexval_char c) 0 s"


section \<open>Errors, stored values and the state of one host\<close>

datatype error =
    NetworkSetupError string
  | PcoccError string
  | KeyError string
  | IndexError
  | TypeError
  | AssertionError
  | SocketError
  | StructError
  | IOError
  | ValueError
  | NameError string
  | AttributeError

text \<open>
  Values of the key-value store and of the allocation records. \<open>yaml.dump\<close> and
  \<open>yaml.safe_load\<close> are external; the store holds the value that was dumped.
\<close>

datatype yaml =
    YNull
  | YBool bool
  | YInt int
  | YStr string
  | YList "yaml list"
  | YMap "(string \<times> yaml) list"

fun truthy :: "yaml \<Rightarrow> bool" where
  "truthy YNull = False"
| "truthy (YBool b) = b"
| "truthy (YInt i) = (i \<noteq> 0)"
| "truthy (YStr s) = (s \<noteq> [])"
| "truthy (YList xs) = (xs \<noteq> [])"
| "truthy (YMap m) = (m \<noteq> [])"

definition not_res :: "yaml option \<Rightarrow> bool" where
  \<comment> \<open>\<open>not net_res\<close>, where \<open>net_res\<close> is \<open>None\<close> or a loaded record\<close>
  "not_res r = (case r of None \<Rightarrow> True | Some y \<Rightarrow> \<not> truthy y)"

definition subscript :: "yaml \<Rightarrow> string \<Rightarrow> error + yaml" where
  \<comment> \<open>\<open>d[k]\<close>\<close>
  "subscript d k =
     (case d of
        YMap m \<Rightarrow> (case map_of m k of None \<Rightarrow> Inl (KeyError k) | Some v \<Rightarrow> Inr v)
      | _ \<Rightarrow> Inl TypeError)"

definition subscript_opt :: "yaml option \<Rightarrow> string \<Rightarrow> error + yaml" where
  \<comment> \<open>\<open>d[k]\<close> where \<open>d\<close> may be \<open>None\<close>\<close>
  "subscript_opt d k = (case d of None \<Rightarrow> Inl TypeError | Some y \<Rightarrow> subscript y k)"

definition str_of :: "yaml \<Rightarrow> string" where
  \<comment> \<open>a stored scalar used as a string argument\<close>
  "str_of y = (case y of YStr s \<Rightarrow> s | YInt i \<Rightarrow> fmt_d i | _ \<Rightarrow> [])"

text \<open>
  The state of one host, as far as Networks.py reads it back, together with the shared
  key-value store and a log of every call of an OS helper. The kernel tools are taken to
  succeed; the exceptions modelled are those Networks.py raises itself and those Python
  raises on the values at hand.
\<close>

record host =
  node_rank :: int
  batchuser :: string
  host_addr :: string
  resolve_host :: "string \<Rightarrow> string"
  environ :: "(string \<times> string) list"
  entropy :: "int list"
  netdevs :: "string list"
  vfio_devs :: "string list"
  virtfns :: "string \<Rightarrow> (string \<times> string) list"
  ovs_bridges :: "string list"
  ovs_ports :: "(string \<times> string \<times> int) list"
  ipt_rules :: "(string \<times> string \<times> string list) list"
  sysfs :: "(string \<times> string) list"
  phys_port_guid :: "string \<Rightarrow> string"
  pkey_ready_after :: nat
  dnsmasq_running :: bool
  kv :: "(string \<times> yaml) list"
  kv_reads :: "string list"
  calls :: "(string \<times> string list) list"

type_synonym 'a outcome = "(error + 'a) \<times> host"

definition seq :: "'a outcome \<Rightarrow> ('a \<Rightarrow> host \<Rightarrow> 'b outcome) \<Rightarrow> 'b outcome" where
  \<comment> \<open>run the continuation unless an exception is propagating; the state is kept either way\<close>
  "seq m f = (case m of (Inl e, s) \<Rightarrow> (Inl e, s) | (Inr x, s) \<Rightarrow> f x s)"

definition lift :: "error + 'a \<Rightarrow> host \<Rightarrow> 'a outcome" where
  "lift r s = (r, s)"

definition call :: "string \<Rightarrow> string list \<Rightarrow> host \<Rightarrow> host" where
  "call f args s = s\<lparr>calls := calls s @ [(f, args)]\<rparr>"

definition is_on_node :: "vm \<Rightarrow> host \<Rightarrow> bool" where
  \<comment> \<open>Modelled from the spec: \<open>vm.is_on_node()\<close> of the cluster descriptor, which is not in
      Networks.py: the VM runs on this host.\<close>
  "is_on_node v s = (vm_host_rank v = node_rank s)"

definition vm_res_label :: "vm \<Rightarrow> string" where
  "vm_res_label v = ''vm-'' @ fmt_d (vm_rank v)"

subsection \<open>The batch manager's key-value store\<close>

text \<open>
  Modelled from the spec: the key-value store of the batch manager (\<open>Config().batch\<close>),
  which is not in Networks.py. A key is the scope, a slash and the path. A read that
  would block for ever ends with the error \<open>PcoccError ''Timeout''\<close>.
\<close>

definition key_path :: "string \<Rightarrow> string \<Rightarrow> string" where
  "key_path scope key = scope @ ''/'' @ key"

definition write_key :: "string \<Rightarrow> string \<Rightarrow> yaml \<Rightarrow> host \<Rightarrow> host" where
  "write_key scope key v s = s\<lparr>kv := AList.update (key_path scope key) v (kv s)\<rparr>"

definition read_key :: "string \<Rightarrow> string \<Rightarrow> host \<Rightarrow> yaml option \<times> host" where
  "read_key scope key s =
     (map_of (kv s) (key_path scope key), s\<lparr>kv_reads := kv_reads s @ [key_path scope key]\<rparr>)"

definition delete_key :: "string \<Rightarrow> string \<Rightarrow> host \<Rightarrow> host" where
  "delete_key scope key s = s\<lparr>kv := AList.delete (key_path scope key) (kv s)\<rparr>"

definition under_dir :: "string \<Rightarrow> string \<Rightarrow> bool" where
  "under_dir d k = (let d' = (if d \<noteq> [] \<and> last d = CHR ''/'' then d else d @ ''/'')
                    in take (length d') k = d')"

definition delete_dir :: "string \<Rightarrow> string \<Rightarrow> host \<Rightarrow> host" where
  "delete_dir scope key s =
     s\<lparr>kv := filter (\<lambda>(k, v). \<not> under_dir (key_path scope key) k) (kv s)\<rparr>"

definition wait_child_count :: "string \<Rightarrow> string \<Rightarrow> nat \<Rightarrow> host \<Rightarrow> (yaml list) outcome" where
  "wait_child_count scope key n s =
     (let children = filter (\<lambda>(k, v). under_dir (key_path scope key) k) (kv s)
      in if length children = n then (Inr (map snd children), s)
         else (Inl (PcoccError ''Timeout''), s))"


subsection \<open>The ID allocator\<close>

text \<open>
  Modelled from the spec: the ID allocator (\<open>IDAllocator\<close> of the module Misc, which is
  not in Networks.py). The master scans the bitmap, takes the lowest clear bit and
  publishes the index under the label; another host reads the published index; a full
  bitmap is an error. The bitmap is stored under the allocator's key as a list of
  booleans, an absent key standing for the empty bitmap. The label is stored in the
  scope \<open>cluster\<close>.
\<close>

definition ida_bitmap :: "string \<Rightarrow> nat \<Rightarrow> host \<Rightarrow> bool list" where
  "ida_bitmap key n s =
     (case map_of (kv s) key of
        Some (YList bs) \<Rightarrow> map (\<lambda>b. b = YBool True) (take n bs) @ replicate (n - length bs) False
      | _ \<Rightarrow> replicate n False)"

fun lowest_clear :: "nat \<Rightarrow> bool list \<Rightarrow> nat option" where
  "lowest_clear i [] = None"
| "lowest_clear i (b # bs) = (if b then lowest_clear (Suc i) bs else Some i)"

definition ida_alloc_one :: "string \<Rightarrow> nat \<Rightarrow> bool \<Rightarrow> string \<Rightarrow> host \<Rightarrow> int outcome" where
  "ida_alloc_one key n is_master label s =
     (if is_master then
        (let bm = ida_bitmap key n s in
         case lowest_clear 0 bm of
           None \<Rightarrow> (Inl (PcoccError ''ResourceExhausted''), s)
         | Some i \<Rightarrow>
             (Inr (int i),
              write_key ''cluster'' label (YInt (int i))
                (s\<lparr>kv := AList.update key (YList (map YBool (bm[i := True]))) (kv s)\<rparr>)))
      else
        (case read_key ''cluster'' label s of
           (Some (YInt i), s') \<Rightarrow> (Inr i, s')
         | (_, s') \<Rightarrow> (Inl (PcoccError ''Timeout''), s')))"

definition ida_coll_alloc_one :: "string \<Rightarrow> nat \<Rightarrow> int \<Rightarrow> string \<Rightarrow> host \<Rightarrow> int outcome" where
  "ida_coll_alloc_one key n master_host label s =
     ida_alloc_one key n (node_rank s = master_host) label s"

definition ida_free_one :: "string \<Rightarrow> nat \<Rightarrow> int \<Rightarrow> host \<Rightarrow> unit outcome" where
  "ida_free_one key n idx s =
     (if 0 \<le> idx \<and> idx < int n then
        (Inr (), s\<lparr>kv := AList.update key
                          (YList (map YBool ((ida_bitmap key n s)[nat idx := False]))) (kv s)\<rparr>)
      else (Inl (PcoccError ''Invalid id''), s))"

subsection \<open>Device names and ids\<close>

definition is_digit :: "char \<Rightarrow> bool" where
  \<comment> \<open>\<open>\d\<close> on a byte string\<close>
  "is_digit c = (let n = (of_char c :: nat) in 48 \<le> n \<and> n \<le> 57)"

definition dec_val :: "string \<Rightarrow> nat" where
  \<comment> \<open>\<open>int(ds)\<close> for a string of decimal digits\<close>
  "dec_val ds = foldl (\<lambda>a c. 10 * a + (of_char c - 48)) 0 ds"

definition match_prefix_digits :: "string \<Rightarrow> string \<Rightarrow> string option" where
  \<comment> \<open>\<open>re.match(prefix + r'(\d+)', s)\<close> for a prefix without regular-expression operators:
      the group, when the match succeeds\<close>
  "match_prefix_digits prefix s =
     (if take (length prefix) s = prefix
      then (let ds = takeWhile is_digit (drop (length prefix) s)
            in if ds = [] then None else Some ds)
      else None)"

definition dev_name_from_id :: "string \<Rightarrow> int \<Rightarrow> string" where
  "dev_name_from_id prefix dev_id = prefix @ fmt_d dev_id"

definition id_from_dev_name :: "string \<Rightarrow> string \<Rightarrow> error + int" where
  "id_from_dev_name prefix devname =
     (if prefix = [] then Inl AssertionError
      else (case match_prefix_digits prefix devname of
              Some ds \<Rightarrow> Inr (int (dec_val ds))
            | None \<Rightarrow> Inr (- 1)))"

definition find_used_dev_ids :: "string \<Rightarrow> host \<Rightarrow> error + int list" where
  "find_used_dev_ids prefix s =
     (if prefix = [] \<and> netdevs s \<noteq> [] then Inl AssertionError
      else Inr (concat (map (\<lambda>devname.
                   case id_from_dev_name prefix devname of
                     Inr i \<Rightarrow> if i \<noteq> - 1 then [i] else []
                   | Inl e \<Rightarrow> []) (netdevs s))))"

fun first_gap :: "int \<Rightarrow> int list \<Rightarrow> int option" where
  \<comment> \<open>\<open>for pos, nat_id in enumerate(ids): if pos < nat_id: return pos\<close>\<close>
  "first_gap pos [] = None"
| "first_gap pos (nat_id # ids) = (if pos < nat_id then Some pos else first_gap (pos + 1) ids)"

definition find_free_dev_id :: "string \<Rightarrow> host \<Rightarrow> error + int" where
  "find_free_dev_id prefix s =
     (case find_used_dev_ids prefix s of
        Inl e \<Rightarrow> Inl e
      | Inr used_ids \<Rightarrow>
          (case first_gap 0 (sort used_ids) of
             Some pos \<Rightarrow> Inr pos
           | None \<Rightarrow> Inr (int (length used_ids))))"

definition find_free_dev_name :: "string \<Rightarrow> host \<Rightarrow> error + string" where
  "find_free_dev_name prefix s =
     (case find_free_dev_id prefix s of
        Inl e \<Rightarrow> Inl e
      | Inr dev_id \<Rightarrow> Inr (dev_name_from_id prefix dev_id))"


subsection \<open>OS adapter\<close>

definition is_space :: "char \<Rightarrow> bool" where
  "is_space c = (c = CHR '' '' \<or> (let n = (of_char c :: nat) in 9 \<le> n \<and> n \<le> 13))"

fun split_ws :: "string \<Rightarrow> string \<Rightarrow> string list" where
  "split_ws w [] = (if w = [] then [] else [w])"
| "split_ws w (c # cs) =
     (if is_space c then (if w = [] then split_ws [] cs else w # split_ws [] cs)
      else split_ws (w @ [c]) cs)"

definition py_split :: "string \<Rightarrow> string list" where
  \<comment> \<open>\<open>s.split()\<close>\<close>
  "py_split s = split_ws [] s"

definition tun_create_tap :: "string \<Rightarrow> string \<Rightarrow> host \<Rightarrow> host" where
  "tun_create_tap name user s =
     call ''tun_create_tap'' [name, user]
       (s\<lparr>netdevs := (if name \<in> set (netdevs s) then netdevs s else netdevs s @ [name])\<rparr>)"

definition tun_delete_tap :: "string \<Rightarrow> host \<Rightarrow> host" where
  "tun_delete_tap name s =
     call ''tun_delete_tap'' [name] (s\<lparr>netdevs := removeAll name (netdevs s)\<rparr>)"

definition dev_enable :: "string \<Rightarrow> host \<Rightarrow> host" where
  "dev_enable name s = call ''dev_enable'' [name] s"

definition ip_set_mtu :: "string \<Rightarrow> int \<Rightarrow> host \<Rightarrow> host" where
  "ip_set_mtu dev mtu s = call ''ip_set_mtu'' [dev, fmt_d mtu] s"

definition bridge_add_port :: "string \<Rightarrow> string \<Rightarrow> host \<Rightarrow> host" where
  "bridge_add_port tapname bridgename s = call ''bridge_add_port'' [tapname, bridgename] s"

definition ip_arp_add :: "string \<Rightarrow> string \<Rightarrow> string \<Rightarrow> host \<Rightarrow> host" where
  "ip_arp_add ip hwaddr dev s = call ''ip_arp_add'' [ip, hwaddr, dev] s"

definition ip_arp_del :: "string \<Rightarrow> string \<Rightarrow> string \<Rightarrow> host \<Rightarrow> host" where
  "ip_arp_del ip hwaddr dev s = call ''ip_arp_del'' [ip, hwaddr, dev] s"

definition ovs_del_flows :: "string \<Rightarrow> string \<Rightarrow> host \<Rightarrow> host" where
  "ovs_del_flows brname flow s = call ''ovs_del_flows'' (brname # py_split flow) s"

definition ovs_add_flow :: "string \<Rightarrow> int \<Rightarrow> int \<Rightarrow> string \<Rightarrow> host \<Rightarrow> host" where
  \<comment> \<open>the callers pass neither \<open>action\<close> nor \<open>cookie\<close>, so the flow text ends with the
      formatted \<open>None\<close>\<close>
  "ovs_add_flow brname table priority match s =
     call ''ovs_add_flow''
       [brname, ''table='' @ fmt_d table @ '', priority='' @ fmt_d priority @ '', '' @ match @
                '', None''] s"

definition ovs_add_bridge :: "string \<Rightarrow> string option \<Rightarrow> host \<Rightarrow> host" where
  "ovs_add_bridge brname hwaddr s =
     (let s1 = call ''ovs_add_bridge'' (brname # (case hwaddr of None \<Rightarrow> [] | Some h \<Rightarrow> [h]))
                 (s\<lparr>ovs_bridges := (if brname \<in> set (ovs_bridges s) then ovs_bridges s
                                      else ovs_bridges s @ [brname]),
                    netdevs := (if brname \<in> set (netdevs s) then netdevs s
                                else netdevs s @ [brname])\<rparr>);
          s2 = ovs_del_flows brname ''--strict priority=0'' s1
      in dev_enable brname s2)"

definition ovs_del_bridge :: "string \<Rightarrow> host \<Rightarrow> host" where
  "ovs_del_bridge brname s =
     call ''ovs_del_bridge'' [brname]
       (s\<lparr>ovs_bridges := removeAll brname (ovs_bridges s),
          netdevs := removeAll brname (netdevs s),
          ovs_ports := filter (\<lambda>(b, p, i). b \<noteq> brname) (ovs_ports s)\<rparr>)"

definition ovs_bridge_exists :: "string \<Rightarrow> host \<Rightarrow> bool" where
  \<comment> \<open>the output of \<open>ovs-vsctl show\<close> is taken to name exactly the bridges of the state\<close>
  "ovs_bridge_exists brname s = (brname \<in> set (ovs_bridges s))"

definition ovs_get_port_id :: "string \<Rightarrow> string \<Rightarrow> host \<Rightarrow> error + int" where
  "ovs_get_port_id tapname brname s =
     (case filter (\<lambda>(b, p, i). b = brname \<and> p = tapname) (ovs_ports s) of
        [] \<Rightarrow> Inl (KeyError (tapname @ '' not found on '' @ brname))
      | (b, p, i) # _ \<Rightarrow> Inr i)"

definition ovs_next_port :: "string \<Rightarrow> host \<Rightarrow> int" where
  \<comment> \<open>the switch numbers a new port one above the highest port of the bridge\<close>
  "ovs_next_port brname s =
     1 + foldr max (map (\<lambda>(b, p, i). i) (filter (\<lambda>(b, p, i). b = brname) (ovs_ports s))) 0"

definition ovs_add_port :: "string \<Rightarrow> string \<Rightarrow> host \<Rightarrow> int outcome" where
  "ovs_add_port tapname brname s =
     (let s1 = call ''ovs_add_port'' [tapname, brname]
                 (s\<lparr>ovs_ports := ovs_ports s @ [(brname, tapname, ovs_next_port brname s)]\<rparr>)
      in (ovs_get_port_id tapname brname s1, s1))"

definition ovs_del_port :: "string \<Rightarrow> string \<Rightarrow> host \<Rightarrow> host" where
  "ovs_del_port tapname brname s =
     call ''ovs_del_port'' [tapname, brname]
       (s\<lparr>ovs_ports := filter (\<lambda>(b, p, i). \<not> (b = brname \<and> p = tapname)) (ovs_ports s)\<rparr>)"

definition ipt_table :: "string option \<Rightarrow> string" where
  \<comment> \<open>without \<open>-t\<close> the tool works on the table \<open>filter\<close>\<close>
  "ipt_table table = (case table of None \<Rightarrow> ''filter'' | Some t \<Rightarrow> if t = [] then ''filter'' else t)"

definition ipt_rule_exists :: "string \<Rightarrow> string \<Rightarrow> string option \<Rightarrow> host \<Rightarrow> bool" where
  \<comment> \<open>\<open>iptables -C\<close>: a rule with these arguments is in the chain\<close>
  "ipt_rule_exists rule chain table s = ((ipt_table table, chain, py_split rule) \<in> set (ipt_rules s))"

definition ipt_append_rule :: "string \<Rightarrow> string \<Rightarrow> string option \<Rightarrow> host \<Rightarrow> host" where
  "ipt_append_rule rule chain table s =
     s\<lparr>ipt_rules := ipt_rules s @ [(ipt_table table, chain, py_split rule)]\<rparr>"

definition ipt_append_rule_idemp :: "string \<Rightarrow> string \<Rightarrow> string option \<Rightarrow> host \<Rightarrow> host" where
  "ipt_append_rule_idemp rule chain table s =
     (if \<not> ipt_rule_exists rule chain table s then ipt_append_rule rule chain table s else s)"

definition ipt_delete_rule :: "string \<Rightarrow> string \<Rightarrow> string option \<Rightarrow> host \<Rightarrow> host" where
  "ipt_delete_rule rule chain table s =
     s\<lparr>ipt_rules := remove1 (ipt_table table, chain, py_split rule) (ipt_rules s)\<rparr>"

definition ipt_delete_rule_idemp :: "string \<Rightarrow> string \<Rightarrow> string option \<Rightarrow> host \<Rightarrow> host" where
  "ipt_delete_rule_idemp rule chain table s =
     (if ipt_rule_exists rule chain table s then ipt_delete_rule rule chain table s else s)"


subsection \<open>IPv4 arithmetic\<close>

fun split_on :: "char \<Rightarrow> string \<Rightarrow> string \<Rightarrow> string list" where
  \<comment> \<open>\<open>s.split(c)\<close>, the first argument of the recursion being the part read so far\<close>
  "split_on c w [] = [w]"
| "split_on c w (x # xs) = (if x = c then w # split_on c [] xs else split_on c (w @ [x]) xs)"

definition quad_part_ok :: "string \<Rightarrow> bool" where
  "quad_part_ok p = (p \<noteq> [] \<and> list_all is_digit p \<and> (p = ''0'' \<or> hd p \<noteq> CHR ''0'') \<and>
                     length p \<le> 3 \<and> dec_val p \<le> 255)"

definition dotted_quad_to_num :: "string \<Rightarrow> error + int" where
  \<comment> \<open>\<open>socket.inet_aton\<close> on four decimal parts; the other notations it accepts are not
      modelled and count as invalid\<close>
  "dotted_quad_to_num ip =
     (case split_on (CHR ''.'') [] ip of
        [a, b, c, d] \<Rightarrow>
          if quad_part_ok a \<and> quad_part_ok b \<and> quad_part_ok c \<and> quad_part_ok d
          then Inr (int (((dec_val a * 256 + dec_val b) * 256 + dec_val c) * 256 + dec_val d))
          else Inl SocketError
      | _ \<Rightarrow> Inl SocketError)"

definition num_to_dotted_quad :: "int \<Rightarrow> error + string" where
  \<comment> \<open>\<open>struct.pack('!L', addr)\<close> refuses a number outside 32 bits\<close>
  "num_to_dotted_quad addr =
     (if 0 \<le> addr \<and> addr < 2 ^ 32
      then Inr (fmt_d (addr div 2 ^ 24) @ ''.'' @ fmt_d (addr div 2 ^ 16 mod 256) @ ''.'' @
                fmt_d (addr div 2 ^ 8 mod 256) @ ''.'' @ fmt_d (addr mod 256))
      else Inl StructError)"

definition make_mask :: "int \<Rightarrow> error + int" where
  \<comment> \<open>\<open>((2L<<num_bits-1) - 1) << (32 - num_bits)\<close>: a negative shift count is a ValueError\<close>
  "make_mask num_bits =
     (if 1 \<le> num_bits \<and> num_bits \<le> 32
      then Inr ((2 ^ nat num_bits - 1) * 2 ^ nat (32 - num_bits))
      else Inl ValueError)"

definition network_mask :: "string \<Rightarrow> int \<Rightarrow> error + int" where
  "network_mask ip bits =
     (case dotted_quad_to_num ip of
        Inl e \<Rightarrow> Inl e
      | Inr a \<Rightarrow> (case make_mask bits of Inl e \<Rightarrow> Inl e | Inr m \<Rightarrow> Inr (a AND m)))"

definition get_ip_on_network :: "string \<Rightarrow> int \<Rightarrow> error + string" where
  "get_ip_on_network netaddr offset =
     (case dotted_quad_to_num netaddr of
        Inl e \<Rightarrow> Inl e
      | Inr a \<Rightarrow> num_to_dotted_quad (a + offset))"

definition ip_add :: "string \<Rightarrow> int \<Rightarrow> string \<Rightarrow> host \<Rightarrow> unit outcome" where
  "ip_add ip bits dev s =
     (case network_mask ip bits of
        Inl e \<Rightarrow> (Inl e, s)
      | Inr m \<Rightarrow>
          (case num_to_dotted_quad m of
             Inl e \<Rightarrow> (Inl e, s)
           | Inr netaddr \<Rightarrow>
               (case get_ip_on_network netaddr (2 ^ nat (32 - bits) - 1) of
                  Inl e \<Rightarrow> (Inl e, s)
                | Inr bcast \<Rightarrow>
                    (Inr (), call ''ip_add'' [ip @ ''/'' @ fmt_d bits, bcast, dev] s))))"

definition ip_add_idemp :: "string \<Rightarrow> int \<Rightarrow> string \<Rightarrow> host \<Rightarrow> unit outcome" where
  \<comment> \<open>the tool's answer "File exists" is swallowed; the tool is taken to succeed\<close>
  "ip_add_idemp ip bits dev s = ip_add ip bits dev s"

subsection \<open>PCI devices and virtual functions\<close>

datatype VFType = MLX4 | MLX5

definition device_vf_type :: "string \<Rightarrow> error + VFType" where
  "device_vf_type device_name =
     (if take 4 device_name = ''mlx4'' then Inr MLX4
      else if take 4 device_name = ''mlx5'' then Inr MLX5
      else Inl (NetworkSetupError (''Cannot determine VF type for device '' @ device_name)))"

definition pci_list_vfio_devices :: "host \<Rightarrow> string list" where
  "pci_list_vfio_devices s = vfio_devs s"

definition pci_enable_driver :: "string \<Rightarrow> string \<Rightarrow> host \<Rightarrow> host" where
  "pci_enable_driver dev_addr driver_name s = call ''pci_enable_driver'' [dev_addr, driver_name] s"

definition pci_bind_vfio :: "string \<Rightarrow> string \<Rightarrow> host \<Rightarrow> host" where
  "pci_bind_vfio dev_addr batch_user s =
     call ''pci_bind_vfio'' [dev_addr, batch_user]
       (s\<lparr>vfio_devs := (if dev_addr \<in> set (vfio_devs s) then vfio_devs s
                         else vfio_devs s @ [dev_addr])\<rparr>)"

definition pci_unbind_vfio :: "string \<Rightarrow> string \<Rightarrow> host \<Rightarrow> host" where
  "pci_unbind_vfio dev_addr host_driver s =
     call ''pci_unbind_vfio'' [dev_addr, host_driver]
       (s\<lparr>vfio_devs := removeAll dev_addr (vfio_devs s)\<rparr>)"

definition vf_entries :: "string \<Rightarrow> host \<Rightarrow> (string \<times> string) list" where
  \<comment> \<open>the entries \<open>virtfnN\<close> of the device directory: the digits and the address linked\<close>
  "vf_entries device_name s =
     concat (map (\<lambda>(virtfn, vf_addr).
               case match_prefix_digits ''virtfn'' virtfn of
                 None \<Rightarrow> []
               | Some vf_id \<Rightarrow> [(vf_id, vf_addr)]) (virtfns s device_name))"

definition find_free_vf :: "string \<Rightarrow> host \<Rightarrow> error + string" where
  "find_free_vf device_name s =
     (case filter (\<lambda>(vf_id, vf_addr). vf_addr \<notin> set (pci_list_vfio_devices s))
                  (vf_entries device_name s) of
        [] \<Rightarrow> Inl (NetworkSetupError (''unable to find a free VF for device '' @ device_name))
      | (vf_id, vf_addr) # _ \<Rightarrow> Inr vf_addr)"

definition vf_id_from_addr :: "string \<Rightarrow> string \<Rightarrow> host \<Rightarrow> int option" where
  "vf_id_from_addr device vf_addr s =
     (case filter (\<lambda>(vf_id, a). a = vf_addr) (vf_entries device s) of
        [] \<Rightarrow> None
      | (vf_id, a) # _ \<Rightarrow> Some (int (dec_val vf_id)))"

definition cleanup_all_vfs :: "string \<Rightarrow> host \<Rightarrow> string list \<times> host" where
  "cleanup_all_vfs device_name s =
     (let vf_list = map snd (filter (\<lambda>(vf_id, vf_addr). vf_addr \<in> set (pci_list_vfio_devices s))
                                    (vf_entries device_name s))
      in (vf_list, fold (\<lambda>vf_addr. pci_unbind_vfio vf_addr ''pci-stub'') vf_list s))"

definition guid_hex_to_col :: "string \<Rightarrow> string" where
  "guid_hex_to_col guid = join '':'' (slices2 (drop 2 guid))"

definition sriov_path :: "string \<Rightarrow> int \<Rightarrow> string" where
  "sriov_path device_name vf_id =
     ''/sys/class/infiniband/'' @ device_name @ ''/device/sriov/'' @ fmt_d vf_id"

definition sysfs_write :: "string \<Rightarrow> string \<Rightarrow> host \<Rightarrow> host" where
  "sysfs_write path content s = s\<lparr>sysfs := AList.update path content (sysfs s)\<rparr>"

definition vf_set_guid :: "string \<Rightarrow> string \<Rightarrow> string \<Rightarrow> string \<Rightarrow> host \<Rightarrow> unit outcome" where
  \<comment> \<open>an address that is no virtual function of the device gives the id \<open>None\<close> and a
      path that cannot be opened\<close>
  "vf_set_guid device_name vf_addr guid node_guid s =
     (case vf_id_from_addr device_name vf_addr s of
        None \<Rightarrow> (Inl IOError, s)
      | Some vf_id \<Rightarrow>
          (Inr (),
           call ''vf_set_guid'' [device_name, vf_addr, guid, node_guid]
            (sysfs_write (sriov_path device_name vf_id @ ''/port'') (guid_hex_to_col guid)
              (sysfs_write (sriov_path device_name vf_id @ ''/node'') (guid_hex_to_col node_guid)
                (sysfs_write (sriov_path device_name vf_id @ ''/policy'') (''Follow'' @ [CHR 0x0A])
                   s)))))"

definition vf_unset_guid :: "string \<Rightarrow> string \<Rightarrow> host \<Rightarrow> unit outcome" where
  "vf_unset_guid device_name vf_addr s =
     (case vf_id_from_addr device_name vf_addr s of
        None \<Rightarrow> (Inl IOError, s)
      | Some vf_id \<Rightarrow>
          (Inr (),
           call ''vf_unset_guid'' [device_name, vf_addr]
             (sysfs_write (sriov_path device_name vf_id @ ''/policy'') (''Down'' @ [CHR 0x0A]) s)))"

definition vf_enable_driver :: "string \<Rightarrow> string \<Rightarrow> host \<Rightarrow> host" where
  "vf_enable_driver device_name driver_name s = call ''vf_enable_driver'' [device_name, driver_name] s"

definition vf_allow_host_pkeys :: "string \<Rightarrow> string \<Rightarrow> host \<Rightarrow> host" where
  "vf_allow_host_pkeys device_name vf_addr s = call ''vf_allow_host_pkeys'' [device_name, vf_addr] s"

definition vf_clear_pkeys :: "string \<Rightarrow> string \<Rightarrow> host \<Rightarrow> host" where
  "vf_clear_pkeys device_name vf_addr s = call ''vf_clear_pkeys'' [device_name, vf_addr] s"

definition vf_set_pkey :: "string \<Rightarrow> string \<Rightarrow> int \<Rightarrow> host \<Rightarrow> unit outcome" where
  \<comment> \<open>\<open>find_pkey_idx\<close> fails until the fabric manager has propagated the partition key:
      \<open>pkey_ready_after\<close> counts the attempts that still fail\<close>
  "vf_set_pkey device_name vf_addr pkey_value s =
     (if pkey_ready_after s = 0
      then (Inr (), call ''vf_set_pkey'' [device_name, vf_addr, fmt_d pkey_value] s)
      else (Inl (NetworkSetupError (''pkey 0x'' @ fmt_x pkey_value @ '' not found on device '' @
                                    device_name)),
            s\<lparr>pkey_ready_after := pkey_ready_after s - 1\<rparr>))"

definition get_phys_port_guid :: "string \<Rightarrow> host \<Rightarrow> string" where
  "get_phys_port_guid device_name s = phys_port_guid s device_name"


section \<open>Allocation records\<close>

definition dump_resources :: "string \<Rightarrow> yaml \<Rightarrow> host \<Rightarrow> host" where
  "dump_resources name res s = write_key ''cluster'' (name @ ''/'' @ fmt_d (node_rank s)) res s"

definition load_resources :: "string \<Rightarrow> host \<Rightarrow> yaml outcome" where
  "load_resources name s =
     (case read_key ''cluster'' (name @ ''/'' @ fmt_d (node_rank s)) s of
        (None, s') \<Rightarrow> (Inl (NetworkSetupError (''unable to load resources for network '' @ name)), s')
      | (Some data, s') \<Rightarrow> (Inr data, s'))"

definition load_if_unset :: "string \<Rightarrow> yaml option \<Rightarrow> host \<Rightarrow> (yaml option) outcome" where
  \<comment> \<open>\<open>if not net_res: net_res = self.load_resources()\<close>\<close>
  "load_if_unset name net_res s =
     (if not_res net_res
      then (case load_resources name s of
              (Inl e, s') \<Rightarrow> (Inl e, s')
            | (Inr y, s') \<Rightarrow> (Inr (Some y), s'))
      else (Inr net_res, s))"

definition has_key :: "yaml \<Rightarrow> string \<Rightarrow> error + bool" where
  \<comment> \<open>\<open>k in d\<close> for a record; on another value the subscripts that follow raise TypeError\<close>
  "has_key d k = (case d of YMap m \<Rightarrow> Inr (map_of m k \<noteq> None) | _ \<Rightarrow> Inl TypeError)"

definition int_of_yaml :: "yaml \<Rightarrow> error + int" where
  "int_of_yaml y = (case y of YInt i \<Rightarrow> Inr i | YBool b \<Rightarrow> Inr (if b then 1 else 0)
                    | YStr s \<Rightarrow> (if s \<noteq> [] \<and> list_all is_digit s then Inr (int (dec_val s)) else Inl ValueError)
                    | _ \<Rightarrow> Inl TypeError)"

definition uses_net :: "string \<Rightarrow> vm \<Rightarrow> bool" where
  \<comment> \<open>\<open>self.name in vm.networks\<close>\<close>
  "uses_net name v = (name \<in> set (vm_networks v))"

section \<open>Bridged type\<close>

record bridged_net =
  br_name :: string
  br_host_bridge :: string
  br_tap_prefix :: string
  br_mtu :: int

definition br_alloc_vm_res :: "bridged_net \<Rightarrow> vm \<Rightarrow> host \<Rightarrow> yaml outcome" where
  "br_alloc_vm_res n v s =
     (case find_free_dev_id (br_tap_prefix n) s of
        Inl e \<Rightarrow> (Inl e, s)
      | Inr tap_id \<Rightarrow>
          (let tap_name = dev_name_from_id (br_tap_prefix n) tap_id;
               s1 = tun_create_tap tap_name (batchuser s) s;
               s2 = dev_enable tap_name s1;
               s3 = ip_set_mtu tap_name (br_mtu n) s2;
               s4 = bridge_add_port tap_name (br_host_bridge n) s3
           in (Inr (YMap [(''tap_name'', YStr tap_name)]), s4)))"

fun br_alloc_loop :: "bridged_net \<Rightarrow> vm list \<Rightarrow> (string \<times> yaml) list \<Rightarrow> host \<Rightarrow>
    ((string \<times> yaml) list) outcome" where
  "br_alloc_loop n [] net_res s = (Inr net_res, s)"
| "br_alloc_loop n (v # vs) net_res s =
     (if \<not> is_on_node v s then br_alloc_loop n vs net_res s
      else if \<not> uses_net (br_name n) v then br_alloc_loop n vs net_res s
      else (case br_alloc_vm_res n v s of
              (Inl e, s') \<Rightarrow> (Inl e, s')
            | (Inr r, s') \<Rightarrow> br_alloc_loop n vs (AList.update (vm_res_label v) r net_res) s'))"

definition br_alloc_node_resources :: "bridged_net \<Rightarrow> vm list \<Rightarrow> host \<Rightarrow> unit outcome" where
  "br_alloc_node_resources n cluster s =
     (case br_alloc_loop n cluster [] s of
        (Inl e, s') \<Rightarrow> (Inl e, s')
      | (Inr net_res, s') \<Rightarrow> (Inr (), dump_resources (br_name n) (YMap net_res) s'))"

definition br_cleanup_vm_res :: "yaml \<Rightarrow> host \<Rightarrow> unit outcome" where
  "br_cleanup_vm_res resources s =
     (case subscript resources ''tap_name'' of
        Inl e \<Rightarrow> (Inl e, s)
      | Inr tap_name \<Rightarrow> (Inr (), tun_delete_tap (str_of tap_name) s))"

fun br_free_loop :: "bridged_net \<Rightarrow> vm list \<Rightarrow> yaml option \<Rightarrow> host \<Rightarrow> unit outcome" where
  "br_free_loop n [] net_res s = (Inr (), s)"
| "br_free_loop n (v # vs) net_res s =
     (if \<not> is_on_node v s then br_free_loop n vs net_res s
      else if \<not> uses_net (br_name n) v then br_free_loop n vs net_res s
      else (case load_if_unset (br_name n) net_res s of
              (Inl e, s1) \<Rightarrow> (Inl e, s1)
            | (Inr net_res', s1) \<Rightarrow>
                (case subscript_opt net_res' (vm_res_label v) of
                   Inl e \<Rightarrow> (Inl e, s1)
                 | Inr r \<Rightarrow>
                     (case br_cleanup_vm_res r s1 of
                        (Inl e, s2) \<Rightarrow> (Inl e, s2)
                      | (Inr u, s2) \<Rightarrow> br_free_loop n vs net_res' s2))))"

definition br_free_node_resources :: "bridged_net \<Rightarrow> vm list \<Rightarrow> host \<Rightarrow> unit outcome" where
  "br_free_node_resources n cluster s = br_free_loop n cluster None s"

definition upper_char :: "char \<Rightarrow> char" where
  \<comment> \<open>\<open>str.upper\<close> on one byte\<close>
  "upper_char c =
     (case map_of (zip ''abcdefghijklmnopqrstuvwxyz'' ''ABCDEFGHIJKLMNOPQRSTUVWXYZ'') c of
        Some u \<Rightarrow> u
      | None \<Rightarrow> c)"

definition randint :: "int \<Rightarrow> int \<Rightarrow> host \<Rightarrow> int \<times> host" where
  \<comment> \<open>\<open>random.randint(a, b)\<close>: the next number of the host's entropy, brought into range\<close>
  "randint a b s =
     (case entropy s of
        [] \<Rightarrow> (a, s)
      | x # xs \<Rightarrow> (a + x mod (b - a + 1), s\<lparr>entropy := xs\<rparr>))"

definition random_hwaddr :: "host \<Rightarrow> string \<times> host" where
  "random_hwaddr s =
     (let (r1, s1) = randint 0x00 0x7f s;
          (r2, s2) = randint 0x00 0xff s1;
          (r3, s3) = randint 0x00 0xff s2
      in (join '':'' (map fmt_02x [0x52, 0x54, 0x00, r1, r2, r3]), s3))"

definition add_eth_if :: "vm \<Rightarrow> string \<Rightarrow> string \<Rightarrow> string \<Rightarrow> string list \<Rightarrow> host \<Rightarrow> host" where
  \<comment> \<open>the launch descriptor of the VM gets an interface; the optional host port comes last\<close>
  "add_eth_if v name tap hwaddr port s =
     call ''add_eth_if'' ([fmt_d (vm_rank v), name, tap, hwaddr] @ port) s"

definition add_vfio_if :: "vm \<Rightarrow> string \<Rightarrow> string \<Rightarrow> host \<Rightarrow> host" where
  "add_vfio_if v name pci_addr s = call ''add_vfio_if'' [fmt_d (vm_rank v), name, pci_addr] s"

fun br_load_loop :: "bridged_net \<Rightarrow> vm list \<Rightarrow> yaml option \<Rightarrow> host \<Rightarrow> unit outcome" where
  "br_load_loop n [] net_res s = (Inr (), s)"
| "br_load_loop n (v # vs) net_res s =
     (if \<not> is_on_node v s then br_load_loop n vs net_res s
      else if \<not> uses_net (br_name n) v then br_load_loop n vs net_res s
      else (case load_if_unset (br_name n) net_res s of
              (Inl e, s1) \<Rightarrow> (Inl e, s1)
            | (Inr net_res', s1) \<Rightarrow>
                (let (hwaddr, s2) =
                       (case map_of (environ s1)
                               (''PCOCC_NET_'' @ map upper_char (br_name n) @ ''_HWADDR'') of
                          Some h \<Rightarrow> (h, s1)
                        | None \<Rightarrow> random_hwaddr s1)
                 in (case subscript_opt net_res' (vm_res_label v) of
                       Inl e \<Rightarrow> (Inl e, s2)
                     | Inr r \<Rightarrow>
                         (case subscript r ''tap_name'' of
                            Inl e \<Rightarrow> (Inl e, s2)
                          | Inr tap \<Rightarrow>
                              br_load_loop n vs net_res'
                                (add_eth_if v (br_name n) (str_of tap) hwaddr [] s2))))))"

definition br_load_node_resources :: "bridged_net \<Rightarrow> vm list \<Rightarrow> host \<Rightarrow> unit outcome" where
  "br_load_node_resources n cluster s = br_load_loop n cluster None s"


section \<open>NAT type\<close>

text \<open>
  The network object as \<open>VNATNetwork.__init__\<close> leaves it. \<open>nat_rnat\<close> holds
  \<open>_vm_rnat_port\<close> and the two ends of \<open>_host_rnat_port_range\<close> when the settings
  have \<open>reverse-nat\<close>.
\<close>

record nat_net =
  nat_name :: string
  nat_bridge_name :: string
  nat_network :: string
  nat_network_bits :: int
  vm_network :: string
  vm_network_bits :: int
  vm_network_gw :: string
  vm_ip :: string
  nat_tap_prefix :: string
  nat_mtu :: int
  vm_hwaddr :: string
  bridge_hwaddr :: string
  domain_name :: string
  dns_server :: string
  ntp_server :: string
  allow_outbound :: bool
  nat_rnat :: "(int \<times> int \<times> int) option"

definition kill_dnsmasq :: "host \<Rightarrow> host" where
  "kill_dnsmasq s = (if dnsmasq_running s then call ''kill_dnsmasq'' [] (s\<lparr>dnsmasq_running := False\<rparr>) else s)"

definition has_dnsmasq :: "host \<Rightarrow> bool" where
  "has_dnsmasq s = dnsmasq_running s"

definition rule_ssh :: "string \<Rightarrow> int \<Rightarrow> string \<Rightarrow> string" where
  "rule_ssh net bits br =
     ''-d '' @ net @ ''/'' @ fmt_d bits @ '' -o '' @ br @
     '' -p tcp -m tcp --dport 22 -m state --state NEW -j ACCEPT''"

definition rule_established_in :: "string \<Rightarrow> int \<Rightarrow> string \<Rightarrow> string" where
  "rule_established_in net bits br =
     ''-d '' @ net @ ''/'' @ fmt_d bits @ '' -o '' @ br @
     '' -m state --state RELATED,ESTABLISHED -j ACCEPT''"

definition rule_out_all :: "string \<Rightarrow> int \<Rightarrow> string \<Rightarrow> string" where
  "rule_out_all net bits br = ''-s '' @ net @ ''/'' @ fmt_d bits @ '' -i '' @ br @ '' -j ACCEPT''"

definition rule_out_established :: "string \<Rightarrow> int \<Rightarrow> string \<Rightarrow> string" where
  "rule_out_established net bits br =
     ''-s '' @ net @ ''/'' @ fmt_d bits @ '' -i '' @ br @
     '' -m state --state RELATED,ESTABLISHED -j ACCEPT''"

definition rule_masq_proto :: "string \<Rightarrow> int \<Rightarrow> string \<Rightarrow> string" where
  "rule_masq_proto net bits proto =
     ''-s '' @ net @ ''/'' @ fmt_d bits @ '' ! -d '' @ net @ ''/'' @ fmt_d bits @
     '' -p '' @ proto @ '' -j MASQUERADE --to-ports 1024-65535''"

definition rule_masq :: "string \<Rightarrow> int \<Rightarrow> string" where
  "rule_masq net bits =
     ''-s '' @ net @ ''/'' @ fmt_d bits @ '' ! -d '' @ net @ ''/'' @ fmt_d bits @ '' -j MASQUERADE''"

definition rule_dnat :: "string \<Rightarrow> int \<Rightarrow> string \<Rightarrow> int \<Rightarrow> string" where
  "rule_dnat host host_port vm_nat_ip vm_port =
     ''-d '' @ host @ ''/32 -p tcp -m tcp --dport '' @ fmt_d host_port @
     '' -j DNAT --to-destination '' @ vm_nat_ip @ '':'' @ fmt_d vm_port"

definition start_dnsmasq :: "nat_net \<Rightarrow> host \<Rightarrow> unit outcome" where
  "start_dnsmasq n s =
     (let dnsmasq_opts =
            (if ntp_server n \<noteq> [] then ''--dhcp-option=option:ntp-server,'' @ ntp_server n @ '' '' else []) @
            (if dns_server n \<noteq> [] then ''--dhcp-option=option:dns-server,'' @ dns_server n @ '' '' else [])
      in case make_mask (vm_network_bits n) of
           Inl e \<Rightarrow> (Inl e, s)
         | Inr m \<Rightarrow>
             (case num_to_dotted_quad m of
                Inl e \<Rightarrow> (Inl e, s)
              | Inr netmask \<Rightarrow>
                  (Inr (),
                   call ''dnsmasq''
                     [''/var/run/pcocc_dnsmasq.pid'', nat_bridge_name n, vm_hwaddr n, vm_ip n,
                      hd (split_on (CHR '','') [] (domain_name n)), domain_name n, dnsmasq_opts,
                      netmask, vm_network_gw n, vm_ip n]
                     (s\<lparr>dnsmasq_running := True\<rparr>))))"

definition nat_init_node :: "nat_net \<Rightarrow> host \<Rightarrow> unit outcome" where
  "nat_init_node n s =
     (let s1 = (if \<not> ovs_bridge_exists (nat_bridge_name n) s
                then kill_dnsmasq (ovs_add_bridge (nat_bridge_name n) (Some (bridge_hwaddr n)) s)
                else ovs_add_bridge (nat_bridge_name n) (Some (bridge_hwaddr n)) s)
      in case ip_add_idemp (vm_network_gw n) (vm_network_bits n) (nat_bridge_name n) s1 of
           (Inl e, s2) \<Rightarrow> (Inl e, s2)
         | (Inr u, s2) \<Rightarrow>
      (case get_ip_on_network (nat_network n) 1 of
           Inl e \<Rightarrow> (Inl e, s2)
         | Inr bridge_nat_ip \<Rightarrow>
      (case ip_add_idemp bridge_nat_ip (vm_network_bits n) (nat_bridge_name n) s2 of
           (Inl e, s3) \<Rightarrow> (Inl e, s3)
         | (Inr u, s3) \<Rightarrow>
      (case (if \<not> has_dnsmasq s3 then start_dnsmasq n s3 else (Inr (), s3)) of
           (Inl e, s4) \<Rightarrow> (Inl e, s4)
         | (Inr u, s4) \<Rightarrow>
      (let s5 = call ''shell'' [''echo 1 > /proc/sys/net/ipv4/ip_forward''] s4;
           s6 = call ''shell'' [''iptables -P FORWARD DROP''] s5;
           s7 = ipt_append_rule_idemp
                  (rule_ssh (nat_network n) (vm_network_bits n) (nat_bridge_name n)) ''FORWARD'' None s6;
           s8 = ipt_append_rule_idemp
                  (rule_established_in (nat_network n) (vm_network_bits n) (nat_bridge_name n))
                  ''FORWARD'' None s7;
           s9 = (if allow_outbound n
                 then ipt_append_rule_idemp
                        (rule_out_all (nat_network n) (vm_network_bits n) (nat_bridge_name n))
                        ''FORWARD'' None s8
                 else ipt_append_rule_idemp
                        (rule_out_established (nat_network n) (vm_network_bits n) (nat_bridge_name n))
                        ''FORWARD'' None s8);
           s10 = ipt_append_rule_idemp (rule_masq_proto (nat_network n) (vm_network_bits n) ''tcp'')
                   ''POSTROUTING'' (Some ''nat'') s9;
           s11 = ipt_append_rule_idemp (rule_masq_proto (nat_network n) (vm_network_bits n) ''udp'')
                   ''POSTROUTING'' (Some ''nat'') s10;
           s12 = ipt_append_rule_idemp (rule_masq (nat_network n) (vm_network_bits n))
                   ''POSTROUTING'' (Some ''nat'') s11;
           s13 = ovs_add_flow (nat_bridge_name n) 0 1000
                   (''idle_timeout=0,hard_timeout=0,dl_type=0x0806,nw_dst='' @ vm_network_gw n @
                    '',actions=local'') s12;
           s14 = ovs_add_flow (nat_bridge_name n) 0 1000
                   (''in_port=local,idle_timeout=0,hard_timeout=0,dl_type=0x0806,nw_dst='' @ vm_ip n @
                    '',actions=flood'') s13;
           s15 = ovs_add_flow (nat_bridge_name n) 0 0
                   ''idle_timeout=0,hard_timeout=0,in_port=LOCAL,udp,tp_dst=68,actions=FLOOD'' s14
       in (Inr (), s15))))))"

fun delete_taps :: "string \<Rightarrow> int list \<Rightarrow> host \<Rightarrow> host" where
  \<comment> \<open>\<open>for tap_id in ids: tun_delete_tap(dev_name_from_id(prefix, tap_id))\<close>\<close>
  "delete_taps prefix [] s = s"
| "delete_taps prefix (tap_id # ids) s =
     delete_taps prefix ids (tun_delete_tap (dev_name_from_id prefix tap_id) s)"

definition nat_cleanup_node :: "nat_net \<Rightarrow> host \<Rightarrow> unit outcome" where
  "nat_cleanup_node n s =
     (let s1 = call ''shell'' [''echo 0 > /proc/sys/net/ipv4/ip_forward''] s;
          s2 = call ''shell'' [''iptables -P FORWARD ACCEPT''] s1;
          s3 = ovs_del_bridge (nat_bridge_name n) s2;
          s4 = ipt_delete_rule_idemp
                 (rule_established_in (nat_network n) (nat_network_bits n) (nat_bridge_name n))
                 ''FORWARD'' None s3;
          s5 = (if allow_outbound n
                then ipt_delete_rule_idemp
                       (rule_out_all (nat_network n) (vm_network_bits n) (nat_bridge_name n))
                       ''FORWARD'' None s4
                else ipt_delete_rule_idemp
                       (rule_out_established (nat_network n) (vm_network_bits n) (nat_bridge_name n))
                       ''FORWARD'' None s4);
          s6 = ipt_delete_rule_idemp
                 (rule_ssh (nat_network n) (nat_network_bits n) (nat_bridge_name n)) ''FORWARD'' None s5;
          s7 = ipt_delete_rule_idemp (rule_masq_proto (nat_network n) (nat_network_bits n) ''tcp'')
                 ''POSTROUTING'' (Some ''nat'') s6;
          s8 = ipt_delete_rule_idemp (rule_masq_proto (nat_network n) (nat_network_bits n) ''udp'')
                 ''POSTROUTING'' (Some ''nat'') s7;
          s9 = ipt_delete_rule_idemp (rule_masq (nat_network n) (nat_network_bits n))
                 ''POSTROUTING'' (Some ''nat'') s8
      in case find_used_dev_ids (nat_tap_prefix n) s9 of
           Inl e \<Rightarrow> (Inl e, s9)
         | Inr ids \<Rightarrow> (Inr (), kill_dnsmasq (delete_taps (nat_tap_prefix n) ids s9)))"


definition vm_ip_from_id :: "nat_net \<Rightarrow> int \<Rightarrow> error + string" where
  "vm_ip_from_id n nat_id = get_ip_on_network (nat_network n) (nat_id + 2)"

definition nat_alloc_vm_res :: "nat_net \<Rightarrow> vm \<Rightarrow> host \<Rightarrow> yaml outcome" where
  "nat_alloc_vm_res n v s =
     (case find_free_dev_id (nat_tap_prefix n) s of
        Inl e \<Rightarrow> (Inl e, s)
      | Inr nat_id \<Rightarrow>
     (let tap_name = dev_name_from_id (nat_tap_prefix n) nat_id in
      case vm_ip_from_id n nat_id of
        Inl e \<Rightarrow> (Inl e, s)
      | Inr vm_nat_ip \<Rightarrow>
     (let s1 = tun_create_tap tap_name (batchuser s) s;
          s2 = dev_enable tap_name s1
      in case ovs_add_port tap_name (nat_bridge_name n) s2 of
        (Inl e, s3) \<Rightarrow> (Inl e, s3)
      | (Inr vm_port_id, s3) \<Rightarrow>
     (let s4 = ovs_add_flow (nat_bridge_name n) 0 1000
                 (''in_port='' @ fmt_d vm_port_id @
                  '',idle_timeout=0,hard_timeout=0,dl_type=0x0800,nw_src='' @ vm_ip n @
                  '',actions=mod_nw_src:'' @ vm_nat_ip @ '',local'') s3;
          s5 = ovs_add_flow (nat_bridge_name n) 0 1000
                 (''in_port=local,idle_timeout=0,hard_timeout=0,dl_type=0x0800,nw_dst='' @ vm_nat_ip @
                  '',actions=mod_nw_dst:'' @ vm_ip n @ '',output:'' @ fmt_d vm_port_id) s4;
          s6 = ovs_add_flow (nat_bridge_name n) 0 1000
                 (''in_port='' @ fmt_d vm_port_id @
                  '',idle_timeout=0,hard_timeout=0,udp,tp_dst=67,priority=0,actions=local'') s5;
          s7 = ip_arp_add vm_nat_ip (vm_hwaddr n) (nat_bridge_name n) s6;
          alloc_res = [(''tap_name'', YStr tap_name), (''hwaddr'', YStr (vm_hwaddr n)),
                       (''nat_ip'', YStr vm_nat_ip)]
      in case nat_rnat n of
        None \<Rightarrow> (Inr (YMap alloc_res), s7)
      | Some (vm_rnat_port, min_host_port, max_host_port) \<Rightarrow>
     (case id_from_dev_name (nat_tap_prefix n) tap_name of
        Inl e \<Rightarrow> (Inl e, s7)
      | Inr tap_id \<Rightarrow>
     (let host_port = min_host_port + tap_id in
      if host_port > max_host_port
      then (Inl (NetworkSetupError ''Unable to find a free host port for reverse NAT''), s7)
      else
        (let s8 = ipt_append_rule_idemp (rule_dnat (host_addr s7) host_port vm_nat_ip vm_rnat_port)
                    ''PREROUTING'' (Some ''nat'') s7;
             s9 = ipt_append_rule_idemp (rule_dnat (host_addr s8) host_port vm_nat_ip vm_rnat_port)
                    ''OUTPUT'' (Some ''nat'') s8;
             s10 = write_key ''cluster'' (''rnat/'' @ fmt_d (vm_rank v) @ ''/'' @ fmt_d vm_rnat_port)
                     (YInt host_port) s9
         in (Inr (YMap (AList.update ''host_port'' (YInt host_port) alloc_res)), s10))))))))"

fun nat_alloc_loop :: "nat_net \<Rightarrow> vm list \<Rightarrow> (string \<times> yaml) list \<Rightarrow> host \<Rightarrow>
    ((string \<times> yaml) list) outcome" where
  "nat_alloc_loop n [] net_res s = (Inr net_res, s)"
| "nat_alloc_loop n (v # vs) net_res s =
     (if \<not> is_on_node v s then nat_alloc_loop n vs net_res s
      else if \<not> uses_net (nat_name n) v then nat_alloc_loop n vs net_res s
      else (case nat_alloc_vm_res n v s of
              (Inl e, s') \<Rightarrow> (Inl e, s')
            | (Inr r, s') \<Rightarrow> nat_alloc_loop n vs (AList.update (vm_res_label v) r net_res) s'))"

definition nat_alloc_node_resources :: "nat_net \<Rightarrow> vm list \<Rightarrow> host \<Rightarrow> unit outcome" where
  "nat_alloc_node_resources n cluster s =
     (case nat_alloc_loop n cluster [] s of
        (Inl e, s') \<Rightarrow> (Inl e, s')
      | (Inr net_res, s') \<Rightarrow> (Inr (), dump_resources (nat_name n) (YMap net_res) s'))"

definition nat_cleanup_vm_res :: "nat_net \<Rightarrow> yaml \<Rightarrow> host \<Rightarrow> unit outcome" where
  "nat_cleanup_vm_res n resources s =
     (case subscript resources ''tap_name'' of
        Inl e \<Rightarrow> (Inl e, s)
      | Inr tap \<Rightarrow>
     (case subscript resources ''nat_ip'' of
        Inl e \<Rightarrow> (Inl e, s)
      | Inr ip \<Rightarrow>
     (let tap_name = str_of tap; vm_nat_ip = str_of ip in
      case ovs_get_port_id tap_name (nat_bridge_name n) s of
        Inl e \<Rightarrow> (Inl e, s)
      | Inr vm_port_id \<Rightarrow>
     (let s1 = ovs_del_flows (nat_bridge_name n)
                 (''table=0,in_port='' @ fmt_d vm_port_id @ '',dl_type=0x0800,nw_src='' @ vm_ip n) s;
          s2 = ovs_del_flows (nat_bridge_name n)
                 (''table=0,in_port=local,dl_type=0x0800,nw_dst='' @ vm_nat_ip) s1;
          s3 = ovs_del_port tap_name (nat_bridge_name n) s2;
          s4 = tun_delete_tap tap_name s3;
          s5 = ip_arp_del vm_nat_ip (vm_hwaddr n) (nat_bridge_name n) s4
      in case has_key resources ''host_port'' of
        Inl e \<Rightarrow> (Inl e, s5)
      | Inr False \<Rightarrow> (Inr (), s5)
      | Inr True \<Rightarrow>
     (case subscript resources ''host_port'' of
        Inl e \<Rightarrow> (Inl e, s5)
      | Inr hp \<Rightarrow>
     (case int_of_yaml hp of
        Inl e \<Rightarrow> (Inl e, s5)
      | Inr host_port \<Rightarrow>
     (case nat_rnat n of
        None \<Rightarrow> (Inl AttributeError, s5)
      | Some (vm_rnat_port, min_host_port, max_host_port) \<Rightarrow>
          (let s6 = ipt_delete_rule_idemp (rule_dnat (host_addr s5) host_port vm_nat_ip vm_rnat_port)
                      ''PREROUTING'' (Some ''nat'') s5;
               s7 = ipt_delete_rule_idemp (rule_dnat (host_addr s6) host_port vm_nat_ip vm_rnat_port)
                      ''OUTPUT'' (Some ''nat'') s6
           in (Inr (), s7)))))))))"

fun nat_free_loop :: "nat_net \<Rightarrow> vm list \<Rightarrow> yaml option \<Rightarrow> host \<Rightarrow> unit outcome" where
  "nat_free_loop n [] net_res s = (Inr (), s)"
| "nat_free_loop n (v # vs) net_res s =
     (if \<not> is_on_node v s then nat_free_loop n vs net_res s
      else if \<not> uses_net (nat_name n) v then nat_free_loop n vs net_res s
      else (case load_if_unset (nat_name n) net_res s of
              (Inl e, s1) \<Rightarrow> (Inl e, s1)
            | (Inr net_res', s1) \<Rightarrow>
                (case subscript_opt net_res' (vm_res_label v) of
                   Inl e \<Rightarrow> (Inl e, s1)
                 | Inr r \<Rightarrow>
                     (case nat_cleanup_vm_res n r s1 of
                        (Inl e, s2) \<Rightarrow> (Inl e, s2)
                      | (Inr u, s2) \<Rightarrow> nat_free_loop n vs net_res' s2))))"

definition nat_free_node_resources :: "nat_net \<Rightarrow> vm list \<Rightarrow> host \<Rightarrow> unit outcome" where
  "nat_free_node_resources n cluster s = nat_free_loop n cluster None s"

fun nat_load_loop :: "nat_net \<Rightarrow> vm list \<Rightarrow> yaml option \<Rightarrow> host \<Rightarrow> unit outcome" where
  "nat_load_loop n [] net_res s = (Inr (), s)"
| "nat_load_loop n (v # vs) net_res s =
     (if \<not> is_on_node v s then nat_load_loop n vs net_res s
      else if \<not> uses_net (nat_name n) v then nat_load_loop n vs net_res s
      else (case load_if_unset (nat_name n) net_res s of
              (Inl e, s1) \<Rightarrow> (Inl e, s1)
            | (Inr net_res', s1) \<Rightarrow>
     (case subscript_opt net_res' (vm_res_label v) of
        Inl e \<Rightarrow> (Inl e, s1)
      | Inr r \<Rightarrow>
     (case has_key r ''host_port'' of
        Inl e \<Rightarrow> (Inl e, s1)
      | Inr with_port \<Rightarrow>
     (case subscript r ''tap_name'' of
        Inl e \<Rightarrow> (Inl e, s1)
      | Inr tap \<Rightarrow>
     (case subscript r ''hwaddr'' of
        Inl e \<Rightarrow> (Inl e, s1)
      | Inr hw \<Rightarrow>
     (case (if with_port then subscript r ''host_port'' else Inr YNull) of
        Inl e \<Rightarrow> (Inl e, s1)
      | Inr hp \<Rightarrow>
          nat_load_loop n vs net_res'
            (add_eth_if v (nat_name n) (str_of tap) (str_of hw)
               (if with_port then [str_of hp] else []) s1))))))))"

definition nat_load_node_resources :: "nat_net \<Rightarrow> vm list \<Rightarrow> host \<Rightarrow> unit outcome" where
  "nat_load_node_resources n cluster s = nat_load_loop n cluster None s"


section \<open>Private-overlay type\<close>

record pv_net =
  pv_name :: string
  mac_prefix :: string
  bridge_prefix :: string
  pv_tap_prefix :: string
  pv_mtu :: int
  host_if_suffix :: string

definition pv_min_key :: int where
  "pv_min_key = 1024"

definition pv_max_key :: int where
  "pv_max_key = 2 ^ 16 - 1"

definition pv_ida_key :: string where
  \<comment> \<open>\<open>self._get_type_key_path('key_alloc_state')\<close>\<close>
  "pv_ida_key = ''net/type/pv/key_alloc_state''"

definition pv_ida_size :: nat where
  "pv_ida_size = nat (pv_max_key - pv_min_key + 1)"

definition get_net_key_path :: "string \<Rightarrow> string \<Rightarrow> string" where
  "get_net_key_path name key = ''net/name/'' @ name @ ''/'' @ key"

fun pv_find_master :: "string \<Rightarrow> vm list \<Rightarrow> int \<Rightarrow> host \<Rightarrow> int option" where
  \<comment> \<open>the first loop of \<open>VPVNetwork.alloc_node_resources\<close>: \<open>Some master\<close> at the
      \<open>break\<close>, \<open>None\<close> when the loop ends and the \<open>else\<close> branch returns\<close>
  "pv_find_master name [] master s = None"
| "pv_find_master name (v # vs) master s =
     (if uses_net name v
      then (let master' = (if master = - 1 then vm_host_rank v else master)
            in if is_on_node v s then Some master' else pv_find_master name vs master' s)
      else pv_find_master name vs master s)"

definition ovs_add_tunnel :: "string \<Rightarrow> string \<Rightarrow> string \<Rightarrow> string \<Rightarrow> int \<Rightarrow> host \<Rightarrow> int outcome" where
  "ovs_add_tunnel brname tun_name tun_type host tun_id s =
     (let s1 = call ''ovs_add_tunnel'' [brname, tun_name, tun_type, resolve_host s host, fmt_d tun_id]
                 (s\<lparr>ovs_ports := ovs_ports s @ [(brname, tun_name, ovs_next_port brname s)]\<rparr>)
      in (ovs_get_port_id tun_name brname s1, s1))"

fun pv_alloc_loop :: "pv_net \<Rightarrow> string \<Rightarrow> int \<Rightarrow> vm list \<Rightarrow> bool \<Rightarrow> (string \<times> int) list \<Rightarrow>
    int list \<Rightarrow> (string \<times> yaml) list \<Rightarrow> host \<Rightarrow> (int list \<times> (string \<times> yaml) list) outcome" where
  "pv_alloc_loop n bridge_name tun_id [] bridge_created host_tunnels local_ports net_res s =
     (Inr (local_ports, net_res), s)"
| "pv_alloc_loop n bridge_name tun_id (v # vs) bridge_created host_tunnels local_ports net_res s =
     (if \<not> uses_net (pv_name n) v
      then pv_alloc_loop n bridge_name tun_id vs bridge_created host_tunnels local_ports net_res s
      else
     (let s1 = (if \<not> bridge_created
                then ip_set_mtu bridge_name (pv_mtu n) (ovs_add_bridge bridge_name None s)
                else s);
          hwaddr = gen_vm_hwaddr (mac_prefix n) v
      in if is_on_node v s1 then
           (case find_free_dev_name (pv_tap_prefix n) s1 of
              Inl e \<Rightarrow> (Inl e, s1)
            | Inr tap_name \<Rightarrow>
           (let s2 = tun_create_tap tap_name (batchuser s1) s1;
                s3 = dev_enable tap_name s2;
                s4 = ip_set_mtu tap_name (pv_mtu n) s3
            in case ovs_add_port tap_name bridge_name s4 of
              (Inl e, s5) \<Rightarrow> (Inl e, s5)
            | (Inr port_id, s5) \<Rightarrow>
           (let s6 = ovs_add_flow bridge_name 0 3000
                       (''idle_timeout=0,hard_timeout=0,dl_dst='' @ hwaddr @ '',actions=output:'' @
                        fmt_d port_id) s5;
                s7 = ovs_add_flow bridge_name 0 2000
                       (''in_port='' @ fmt_d port_id @ '',idle_timeout=0,hard_timeout=0,actions=flood'') s6
            in pv_alloc_loop n bridge_name tun_id vs True host_tunnels (local_ports @ [port_id])
                 (AList.update (vm_res_label v)
                    (YMap [(''tap_name'', YStr tap_name), (''hwaddr'', YStr hwaddr),
                           (''port_id'', YInt port_id)]) net_res) s7)))
         else
           (case (case map_of host_tunnels (vm_host v) of
                    Some p \<Rightarrow> (Inr host_tunnels, s1)
                  | None \<Rightarrow>
                      (case ovs_add_tunnel bridge_name
                              (''htun-'' @ bridge_name @ ''-'' @ fmt_d (int (length host_tunnels)))
                              ''vxlan'' (vm_host v @ host_if_suffix n) tun_id s1 of
                         (Inl e, s2) \<Rightarrow> (Inl e, s2)
                       | (Inr tunnel_port_id, s2) \<Rightarrow>
                           (Inr (AList.update (vm_host v) tunnel_port_id host_tunnels), s2))) of
              (Inl e, s2) \<Rightarrow> (Inl e, s2)
            | (Inr host_tunnels', s2) \<Rightarrow>
                (case map_of host_tunnels' (vm_host v) of
                   None \<Rightarrow> (Inl (KeyError (vm_host v)), s2)
                 | Some p \<Rightarrow>
                     pv_alloc_loop n bridge_name tun_id vs True host_tunnels' local_ports net_res
                       (ovs_add_flow bridge_name 0 3000
                          (''idle_timeout=0,hard_timeout=0,dl_dst='' @ hwaddr @ '',actions=output:'' @
                           fmt_d p) s2)))))"

definition pv_alloc_node_resources :: "pv_net \<Rightarrow> vm list \<Rightarrow> host \<Rightarrow> unit outcome" where
  "pv_alloc_node_resources n cluster s =
     (case find_free_dev_name (bridge_prefix n) s of
        Inl e \<Rightarrow> (Inl e, s)
      | Inr bridge_name \<Rightarrow>
     (case pv_find_master (pv_name n) cluster (- 1) s of
        None \<Rightarrow> (Inr (), s)
      | Some master \<Rightarrow>
     (case (case ida_coll_alloc_one pv_ida_key pv_ida_size master (pv_name n @ ''_key'') s of
              (Inl (PcoccError m), s1) \<Rightarrow> (Inl (NetworkSetupError (pv_name n @ '': '' @ m)), s1)
            | r \<Rightarrow> r) of
        (Inl e, s1) \<Rightarrow> (Inl e, s1)
      | (Inr idx, s1) \<Rightarrow>
     (let tun_id = pv_min_key + idx in
      case pv_alloc_loop n bridge_name tun_id cluster False [] [] [] s1 of
        (Inl e, s2) \<Rightarrow> (Inl e, s2)
      | (Inr (local_ports, net_res), s2) \<Rightarrow>
     (let s3 = (if local_ports \<noteq> []
                then ovs_add_flow bridge_name 0 1000
                       (''idle_timeout=0,hard_timeout=0,actions=output:'' @
                        join '','' (map fmt_d local_ports)) s2
                else s2);
          net_res' = AList.update ''global''
                       (YMap [(''bridge_name'', YStr bridge_name), (''tun_id'', YInt tun_id),
                              (''master'', YInt master)]) net_res
      in (Inr (), dump_resources (pv_name n) (YMap net_res') s3))))))"

fun pv_free_loop :: "pv_net \<Rightarrow> vm list \<Rightarrow> yaml option \<Rightarrow> yaml option \<Rightarrow> yaml \<Rightarrow> host \<Rightarrow>
    (yaml option \<times> yaml option \<times> yaml) outcome" where
  "pv_free_loop n [] net_res bridge_name master s = (Inr (net_res, bridge_name, master), s)"
| "pv_free_loop n (v # vs) net_res bridge_name master s =
     (if \<not> is_on_node v s then pv_free_loop n vs net_res bridge_name master s
      else if \<not> uses_net (pv_name n) v then pv_free_loop n vs net_res bridge_name master s
      else
     (case (if not_res net_res
            then (case load_resources (pv_name n) s of
                    (Inl e, s1) \<Rightarrow> (Inl e, s1)
                  | (Inr r, s1) \<Rightarrow>
                      (case subscript r ''global'' of
                         Inl e \<Rightarrow> (Inl e, s1)
                       | Inr g \<Rightarrow>
                           (case subscript g ''bridge_name'' of
                              Inl e \<Rightarrow> (Inl e, s1)
                            | Inr b \<Rightarrow>
                                (case subscript g ''master'' of
                                   Inl e \<Rightarrow> (Inl e, s1)
                                 | Inr m \<Rightarrow> (Inr (Some r, Some b, m), s1)))))
            else (Inr (net_res, bridge_name, master), s)) of
        (Inl e, s1) \<Rightarrow> (Inl e, s1)
      | (Inr (net_res', bridge_name', master'), s1) \<Rightarrow>
     (case subscript_opt net_res' (vm_res_label v) of
        Inl e \<Rightarrow> (Inl e, s1)
      | Inr r \<Rightarrow>
     (case subscript r ''tap_name'' of
        Inl e \<Rightarrow> (Inl e, s1)
      | Inr tap \<Rightarrow>
          pv_free_loop n vs net_res' bridge_name' master'
            (tun_delete_tap (str_of tap)
               (ovs_del_port (str_of tap) (case bridge_name' of None \<Rightarrow> ''None'' | Some b \<Rightarrow> str_of b)
                  s1))))))"

definition pv_free_node_resources :: "pv_net \<Rightarrow> vm list \<Rightarrow> host \<Rightarrow> unit outcome" where
  "pv_free_node_resources n cluster s =
     (case pv_free_loop n cluster None None (YInt (- 1)) s of
        (Inl e, s1) \<Rightarrow> (Inl e, s1)
      | (Inr (net_res, bridge_name, master), s1) \<Rightarrow>
     (let s2 = (case bridge_name of
                  None \<Rightarrow> s1
                | Some b \<Rightarrow> if truthy b then ovs_del_bridge (str_of b) s1 else s1)
      in if master = YInt (node_rank s2) then
           (case subscript_opt net_res ''global'' of
              Inl e \<Rightarrow> (Inl e, s2)
            | Inr g \<Rightarrow>
           (case subscript g ''tun_id'' of
              Inl e \<Rightarrow> (Inl e, s2)
            | Inr t \<Rightarrow>
           (case int_of_yaml t of
              Inl e \<Rightarrow> (Inl e, s2)
            | Inr tun_id \<Rightarrow>
           (case ida_free_one pv_ida_key pv_ida_size (tun_id - pv_min_key) s2 of
              (Inl (PcoccError m), s3) \<Rightarrow> (Inl (NetworkSetupError (pv_name n @ '': '' @ m)), s3)
            | (Inl e, s3) \<Rightarrow> (Inl e, s3)
            | (Inr u, s3) \<Rightarrow>
                (Inr (), delete_dir ''cluster'' (get_net_key_path (pv_name n) []) s3)))))
         else (Inr (), s2)))"

fun pv_load_loop :: "pv_net \<Rightarrow> vm list \<Rightarrow> yaml option \<Rightarrow> host \<Rightarrow> unit outcome" where
  "pv_load_loop n [] net_res s = (Inr (), s)"
| "pv_load_loop n (v # vs) net_res s =
     (if \<not> is_on_node v s then pv_load_loop n vs net_res s
      else if \<not> uses_net (pv_name n) v then pv_load_loop n vs net_res s
      else (case load_if_unset (pv_name n) net_res s of
              (Inl e, s1) \<Rightarrow> (Inl e, s1)
            | (Inr net_res', s1) \<Rightarrow>
     (case subscript_opt net_res' (vm_res_label v) of
        Inl e \<Rightarrow> (Inl e, s1)
      | Inr r \<Rightarrow>
     (case subscript r ''tap_name'' of
        Inl e \<Rightarrow> (Inl e, s1)
      | Inr tap \<Rightarrow>
     (case subscript r ''hwaddr'' of
        Inl e \<Rightarrow> (Inl e, s1)
      | Inr hw \<Rightarrow>
          pv_load_loop n vs net_res' (add_eth_if v (pv_name n) (str_of tap) (str_of hw) [] s1))))))"

definition pv_load_node_resources :: "pv_net \<Rightarrow> vm list \<Rightarrow> host \<Rightarrow> unit outcome" where
  "pv_load_node_resources n cluster s = pv_load_loop n cluster None s"


section \<open>Generic-PCI type\<close>

datatype fmt_piece = Lit string | Field nat

fun py_format :: "fmt_piece list \<Rightarrow> string list \<Rightarrow> error + string" where
  \<comment> \<open>\<open>template.format(*args)\<close> with positional fields: a field beyond the arguments is
      an IndexError\<close>
  "py_format [] args = Inr []"
| "py_format (Lit t # ps) args =
     (case py_format ps args of Inl e \<Rightarrow> Inl e | Inr r \<Rightarrow> Inr (t @ r))"
| "py_format (Field i # ps) args =
     (if i < length args
      then (case py_format ps args of Inl e \<Rightarrow> Inl e | Inr r \<Rightarrow> Inr (args ! i @ r))
      else Inl IndexError)"

record pci_net =
  pci_name :: string
  device_addrs :: "string list"
  host_driver :: string

definition pci_pick_device :: "pci_net \<Rightarrow> host \<Rightarrow> error + string" where
  \<comment> \<open>the \<open>for ... else\<close> over \<open>self._device_addrs\<close>; the message of the error is
      formatted with the field \<open>{1}\<close> and the one argument \<open>self.name\<close>\<close>
  "pci_pick_device n s =
     (let bound_devices = pci_list_vfio_devices s in
      case filter (\<lambda>dev_addr. dev_addr \<notin> set bound_devices) (device_addrs n) of
        dev_addr # _ \<Rightarrow> Inr dev_addr
      | [] \<Rightarrow>
          (case py_format [Lit ''unable to find a free PCI device of type '', Field 1] [pci_name n] of
             Inl e \<Rightarrow> Inl e
           | Inr msg \<Rightarrow> Inl (NetworkSetupError msg)))"

fun pci_alloc_loop :: "pci_net \<Rightarrow> vm list \<Rightarrow> (string \<times> yaml) list \<Rightarrow> host \<Rightarrow>
    ((string \<times> yaml) list) outcome" where
  "pci_alloc_loop n [] net_res s = (Inr net_res, s)"
| "pci_alloc_loop n (v # vs) net_res s =
     (if \<not> is_on_node v s then pci_alloc_loop n vs net_res s
      else if \<not> uses_net (pci_name n) v then pci_alloc_loop n vs net_res s
      else (case pci_pick_device n s of
              Inl e \<Rightarrow> (Inl e, dump_resources (pci_name n) (YMap net_res) s)
            | Inr dev_addr \<Rightarrow>
                pci_alloc_loop n vs
                  (AList.update (vm_res_label v) (YMap [(''dev_addr'', YStr dev_addr)]) net_res)
                  (pci_bind_vfio dev_addr (batchuser s) s)))"

definition pci_alloc_node_resources :: "pci_net \<Rightarrow> vm list \<Rightarrow> host \<Rightarrow> unit outcome" where
  "pci_alloc_node_resources n cluster s =
     (case pci_alloc_loop n cluster [] s of
        (Inl e, s') \<Rightarrow> (Inl e, s')
      | (Inr net_res, s') \<Rightarrow> (Inr (), dump_resources (pci_name n) (YMap net_res) s'))"

section \<open>Host-IB type\<close>

record hostib_net =
  hib_name :: string
  hib_device_name :: string

fun gen_guid_suffix :: "nat \<Rightarrow> host \<Rightarrow> string \<times> host" where
  \<comment> \<open>\<open>''.join(['%02x' % random.randint(0,0xff) for _ in xrange(k)])\<close>\<close>
  "gen_guid_suffix 0 s = ([], s)"
| "gen_guid_suffix (Suc k) s =
     (let (r, s1) = randint 0 0xff s; (rest, s2) = gen_guid_suffix k s1
      in (fmt_02x r @ rest, s2))"

definition env_guid :: "string \<Rightarrow> string \<Rightarrow> string \<Rightarrow> host \<Rightarrow> string \<times> host" where
  \<comment> \<open>the GUID of the environment variable, or the prefix and 48 random bits\<close>
  "env_guid name var prefix s =
     (case map_of (environ s) (''PCOCC_NET_'' @ map upper_char name @ var) of
        Some g \<Rightarrow> (g, s)
      | None \<Rightarrow> (let (sfx, s1) = gen_guid_suffix 6 s in (prefix @ sfx, s1)))"

definition hib_setup_vf :: "hostib_net \<Rightarrow> string \<Rightarrow> string \<Rightarrow> host \<Rightarrow> string outcome" where
  \<comment> \<open>the body of the \<open>try\<close> of \<open>VHostIBNetwork.alloc_node_resources\<close>\<close>
  "hib_setup_vf n port_guid node_guid s =
     (case find_free_vf (hib_device_name n) s of
        Inl e \<Rightarrow> (Inl e, s)
      | Inr vf_addr \<Rightarrow>
     (let s1 = pci_bind_vfio vf_addr (batchuser s) s in
      case device_vf_type (hib_device_name n) of
        Inl e \<Rightarrow> (Inl e, s1)
      | Inr MLX4 \<Rightarrow> (Inr vf_addr, vf_allow_host_pkeys (hib_device_name n) vf_addr s1)
      | Inr MLX5 \<Rightarrow>
          (case vf_set_guid (hib_device_name n) vf_addr port_guid node_guid s1 of
             (Inl e, s2) \<Rightarrow> (Inl e, s2)
           | (Inr u, s2) \<Rightarrow> (Inr vf_addr, s2))))"

fun hib_alloc_loop :: "hostib_net \<Rightarrow> vm list \<Rightarrow> (string \<times> yaml) list \<Rightarrow> host \<Rightarrow>
    ((string \<times> yaml) list) outcome" where
  "hib_alloc_loop n [] net_res s = (Inr net_res, s)"
| "hib_alloc_loop n (v # vs) net_res s =
     (if \<not> is_on_node v s then hib_alloc_loop n vs net_res s
      else if \<not> uses_net (hib_name n) v then hib_alloc_loop n vs net_res s
      else
     (let (port_guid, s1) = env_guid (hib_name n) ''_PORT_GUID'' ''0xc1cc'' s;
          (node_guid, s2) = env_guid (hib_name n) ''_NODE_GUID'' ''0xd1cc'' s1
      in case hib_setup_vf n port_guid node_guid s2 of
           (Inl e, s3) \<Rightarrow> (Inl e, dump_resources (hib_name n) (YMap net_res) s3)
         | (Inr vf_addr, s3) \<Rightarrow>
             hib_alloc_loop n vs
               (AList.update (vm_res_label v) (YMap [(''vf_addr'', YStr vf_addr)]) net_res) s3))"

definition hib_alloc_node_resources :: "hostib_net \<Rightarrow> vm list \<Rightarrow> host \<Rightarrow> unit outcome" where
  "hib_alloc_node_resources n cluster s =
     (case hib_alloc_loop n cluster [] s of
        (Inl e, s') \<Rightarrow> (Inl e, s')
      | (Inr net_res, s') \<Rightarrow> (Inr (), dump_resources (hib_name n) (YMap net_res) s'))"

fun free_node_vfs :: "string \<Rightarrow> string \<Rightarrow> vm list \<Rightarrow> yaml option \<Rightarrow> host \<Rightarrow> unit outcome" where
  \<comment> \<open>\<open>VHostIBNetwork._free_node_vfs\<close>, with \<open>self.name\<close> and \<open>self._device_name\<close>.
      The name \<open>vf_unbind_vfio\<close> it calls is defined nowhere in Networks.py (the helper is
      \<open>pci_unbind_vfio\<close>), so the call raises NameError and the rest of the loop body,
      which clears the partition keys or unsets the GUIDs, is never reached.\<close>
  "free_node_vfs name device_name [] net_res s = (Inr (), s)"
| "free_node_vfs name device_name (v # vs) net_res s =
     (if \<not> is_on_node v s then free_node_vfs name device_name vs net_res s
      else if \<not> uses_net name v then free_node_vfs name device_name vs net_res s
      else (case load_if_unset name net_res s of
              (Inl e, s1) \<Rightarrow> (Inl e, s1)
            | (Inr net_res', s1) \<Rightarrow>
     (case subscript_opt net_res' (vm_res_label v) of
        Inl e \<Rightarrow> (Inl e, s1)
      | Inr r \<Rightarrow>
     (case subscript r ''vf_addr'' of
        Inl e \<Rightarrow> (Inl e, s1)
      | Inr vf_addr \<Rightarrow> (Inl (NameError ''vf_unbind_vfio''), s1)))))"

definition hib_free_node_resources :: "hostib_net \<Rightarrow> vm list \<Rightarrow> host \<Rightarrow> unit outcome" where
  "hib_free_node_resources n cluster s = free_node_vfs (hib_name n) (hib_device_name n) cluster None s"


section \<open>IB type\<close>

record ib_net =
  ib_name :: string
  ib_device_name :: string
  min_pkey :: int
  max_pkey :: int
  license_name :: "string option"
  opensm_partition_cfg :: string
  opensm_partition_tpl :: string
  opensm_daemon :: string

definition ib_ida_key :: string where
  "ib_ida_key = ''net/type/ib/key_alloc_state''"

definition ib_ida_size :: "ib_net \<Rightarrow> nat" where
  "ib_ida_size n = nat (max_pkey n - min_pkey n + 1)"

definition py_hex :: "int \<Rightarrow> string" where
  \<comment> \<open>\<open>str(hex(i))\<close> of a plain integer\<close>
  "py_hex i = (if i < 0 then ''-0x'' @ hex_nat (nat (- i)) else ''0x'' @ hex_nat (nat i))"

fun set_pkey_retry :: "nat \<Rightarrow> int \<Rightarrow> string \<Rightarrow> string \<Rightarrow> int \<Rightarrow> host \<Rightarrow> unit outcome" where
  \<comment> \<open>\<open>for i in range(5)\<close>: the first argument counts the attempts left after this one,
      the second is \<open>i\<close>\<close>
  "set_pkey_retry 0 i device_name vf_addr pkey s = vf_set_pkey device_name vf_addr pkey s"
| "set_pkey_retry (Suc k) i device_name vf_addr pkey s =
     (case vf_set_pkey device_name vf_addr pkey s of
        (Inl (NetworkSetupError m), s1) \<Rightarrow>
          set_pkey_retry k (i + 1) device_name vf_addr pkey (call ''sleep'' [fmt_d (1 + i * 2)] s1)
      | r \<Rightarrow> r)"

definition ib_setup_vf :: "ib_net \<Rightarrow> vm \<Rightarrow> int \<Rightarrow> host \<Rightarrow> string outcome" where
  \<comment> \<open>the body of the \<open>try\<close> of \<open>VIBNetwork.alloc_node_resources\<close>\<close>
  "ib_setup_vf n v my_pkey s =
     (case find_free_vf (ib_device_name n) s of
        Inl e \<Rightarrow> (Inl e, s)
      | Inr vf_addr \<Rightarrow>
     (let s1 = pci_bind_vfio vf_addr (batchuser s) s in
      case device_vf_type (ib_device_name n) of
        Inl e \<Rightarrow> (Inl e, s1)
      | Inr MLX4 \<Rightarrow>
          (case set_pkey_retry 4 0 (ib_device_name n) vf_addr my_pkey s1 of
             (Inl e, s2) \<Rightarrow> (Inl e, s2)
           | (Inr u, s2) \<Rightarrow> (Inr vf_addr, s2))
      | Inr MLX5 \<Rightarrow>
          (case vf_set_guid (ib_device_name n) vf_addr (vm_get_guid v my_pkey)
                  (vm_get_node_guid v my_pkey) s1 of
             (Inl e, s2) \<Rightarrow> (Inl e, s2)
           | (Inr u, s2) \<Rightarrow> (Inr vf_addr, s2))))"

fun ib_alloc_loop :: "ib_net \<Rightarrow> int \<Rightarrow> vm list \<Rightarrow> (string \<times> yaml) list \<Rightarrow> host \<Rightarrow>
    ((string \<times> yaml) list) outcome" where
  "ib_alloc_loop n my_pkey [] net_res s = (Inr net_res, s)"
| "ib_alloc_loop n my_pkey (v # vs) net_res s =
     (case ib_setup_vf n v my_pkey s of
        (Inl e, s1) \<Rightarrow> (Inl e, dump_resources (ib_name n) (YMap net_res) s1)
      | (Inr vf_addr, s1) \<Rightarrow>
          ib_alloc_loop n my_pkey vs
            (AList.update (vm_res_label v) (YMap [(''vf_addr'', YStr vf_addr)]) net_res) s1)"

definition ib_net_hosts :: "ib_net \<Rightarrow> vm list \<Rightarrow> int list" where
  \<comment> \<open>the set \<open>net_hosts\<close>, each host rank once\<close>
  "ib_net_hosts n cluster = remdups (map vm_host_rank (filter (uses_net (ib_name n)) cluster))"

definition ib_net_vms :: "ib_net \<Rightarrow> vm list \<Rightarrow> host \<Rightarrow> vm list" where
  "ib_net_vms n cluster s = filter (\<lambda>v. uses_net (ib_name n) v \<and> is_on_node v s) cluster"

definition ib_is_master :: "ib_net \<Rightarrow> vm list \<Rightarrow> host \<Rightarrow> bool" where
  \<comment> \<open>\<open>batch.node_rank == sorted(net_hosts)[0]\<close>, evaluated when the node has a VM of the
      network, so that \<open>net_hosts\<close> is not empty\<close>
  "ib_is_master n cluster s = (node_rank s = hd (sort (ib_net_hosts n cluster)))"

definition ib_sm_config :: "ib_net \<Rightarrow> vm list \<Rightarrow> int \<Rightarrow> yaml list \<Rightarrow> yaml" where
  "ib_sm_config n cluster my_pkey global_guids =
     YMap [(''host_guids'', YList (map (\<lambda>child. YStr (str_of child)) global_guids)),
           (''vf_guids'', YList (map (\<lambda>v. YStr (vm_get_guid v my_pkey))
                                     (filter (uses_net (ib_name n)) cluster)))]"

definition ib_alloc_node_resources :: "ib_net \<Rightarrow> vm list \<Rightarrow> host \<Rightarrow> unit outcome" where
  "ib_alloc_node_resources n cluster s =
     (let net_hosts = ib_net_hosts n cluster;
          net_vms = ib_net_vms n cluster s
      in if net_vms = [] then (Inr (), s)
      else
     (let master = ib_is_master n cluster s in
      case (case ida_alloc_one ib_ida_key (ib_ida_size n) master (ib_name n @ ''_pkey'') s of
              (Inl (PcoccError m), s1) \<Rightarrow> (Inl (NetworkSetupError (ib_name n @ '': '' @ m)), s1)
            | r \<Rightarrow> r) of
        (Inl e, s1) \<Rightarrow> (Inl e, s1)
      | (Inr pkey_index, s1) \<Rightarrow>
     (let my_pkey = min_pkey n + pkey_index;
          host_guid = get_phys_port_guid (ib_device_name n) s1;
          s2 = write_key ''cluster''
                 (get_net_key_path (ib_name n) (''guids/'' @ fmt_d (node_rank s1))) (YStr host_guid) s1
      in case (if master
               then (case wait_child_count ''cluster'' (get_net_key_path (ib_name n) ''guids'')
                            (length net_hosts) s2 of
                       (Inl e, s3) \<Rightarrow> (Inl e, s3)
                     | (Inr global_guids, s3) \<Rightarrow>
                         (Inr (), write_key ''global'' (''opensm/pkeys/'' @ py_hex my_pkey)
                                    (ib_sm_config n cluster my_pkey global_guids) s3))
               else (Inr (), s2)) of
        (Inl e, s3) \<Rightarrow> (Inl e, s3)
      | (Inr u, s3) \<Rightarrow>
     (let net_res = [(''master'', YBool master), (''pkey'', YInt my_pkey),
                     (''pkey_index'', YInt pkey_index)]
      in case ib_alloc_loop n my_pkey net_vms net_res s3 of
           (Inl e, s4) \<Rightarrow> (Inl e, s4)
         | (Inr net_res', s4) \<Rightarrow> (Inr (), dump_resources (ib_name n) (YMap net_res') s4)))))"

definition ib_free_node_resources :: "ib_net \<Rightarrow> vm list \<Rightarrow> host \<Rightarrow> unit outcome" where
  \<comment> \<open>\<open>net_res\<close> is set to \<open>None\<close> and never assigned again: \<open>_free_node_vfs\<close> loads the
      record into a variable of its own\<close>
  "ib_free_node_resources n cluster s =
     (let net_res = (None :: yaml option) in
      case free_node_vfs (ib_name n) (ib_device_name n) cluster None s of
        (Inl e, s1) \<Rightarrow> (Inl e, s1)
      | (Inr u, s1) \<Rightarrow>
     (case net_res of
        None \<Rightarrow> (Inr (), s1)
      | Some r \<Rightarrow>
     (if \<not> truthy r then (Inr (), s1)
      else
     (case subscript r ''master'' of
        Inl e \<Rightarrow> (Inl e, s1)
      | Inr m \<Rightarrow>
     (if \<not> truthy m then (Inr (), s1)
      else
     (case subscript r ''pkey'' of
        Inl e \<Rightarrow> (Inl e, s1)
      | Inr pk \<Rightarrow>
     (case int_of_yaml pk of
        Inl e \<Rightarrow> (Inl e, s1)
      | Inr pkey \<Rightarrow>
     (let s2 = delete_key ''global'' (''opensm/pkeys/'' @ py_hex pkey) s1 in
      case subscript r ''pkey_index'' of
        Inl e \<Rightarrow> (Inl e, s2)
      | Inr pi \<Rightarrow>
     (case int_of_yaml pi of
        Inl e \<Rightarrow> (Inl e, s2)
      | Inr pkey_index \<Rightarrow>
     (case ida_free_one ib_ida_key (ib_ida_size n) pkey_index s2 of
        (Inl (PcoccError m), s3) \<Rightarrow> (Inl (NetworkSetupError (ib_name n @ '': '' @ m)), s3)
      | (Inl e, s3) \<Rightarrow> (Inl e, s3)
      | (Inr u, s3) \<Rightarrow>
          (Inr (), delete_dir ''cluster'' (get_net_key_path (ib_name n) []) s3)))))))))))"

subsection \<open>Partition-key daemon\<close>

definition is_alnum :: "char \<Rightarrow> bool" where
  \<comment> \<open>the character class \<open>[0-9a-zA-Z]\<close>\<close>
  "is_alnum c = (let k = (of_char c :: nat) in
     (48 \<le> k \<and> k \<le> 57) \<or> (97 \<le> k \<and> k \<le> 122) \<or> (65 \<le> k \<and> k \<le> 90))"

definition at_end :: "string \<Rightarrow> bool" where
  \<comment> \<open>\<open>$\<close>: the end of the string, or one newline before it\<close>
  "at_end r = (r = [] \<or> r = [CHR 0x0A])"

definition guid_ok :: "string \<Rightarrow> bool" where
  \<comment> \<open>\<open>^0x[0-9a-zA-Z]{16}$\<close>\<close>
  "guid_ok g = (take 2 g = ''0x'' \<and> length (take 16 (drop 2 g)) = 16 \<and>
                list_all is_alnum (take 16 (drop 2 g)) \<and> at_end (drop 18 g))"

definition guid_list_ok :: "yaml \<Rightarrow> bool" where
  \<comment> \<open>\<open>type: array\<close> with \<open>items\<close> of \<open>type: string\<close> and the pattern\<close>
  "guid_list_ok y =
     (case y of
        YList xs \<Rightarrow> list_all (\<lambda>x. case x of YStr g \<Rightarrow> guid_ok g | _ \<Rightarrow> False) xs
      | _ \<Rightarrow> False)"

definition pkey_entry_valid :: "yaml \<Rightarrow> bool" where
  \<comment> \<open>\<open>jsonschema.validate(config, pkey_entry_schema)\<close> raises no ValidationError\<close>
  "pkey_entry_valid config =
     (case config of
        YMap m \<Rightarrow>
          (case map_of m ''vf_guids'' of None \<Rightarrow> False | Some v \<Rightarrow> guid_list_ok v) \<and>
          (case map_of m ''host_guids'' of None \<Rightarrow> False | Some h \<Rightarrow> guid_list_ok h)
      | _ \<Rightarrow> False)"

definition match_pkey_key :: "string \<Rightarrow> string \<Rightarrow> string option" where
  \<comment> \<open>\<open>re.match(r'{0}/(0x\d\d\d\d)$'.format(pkey_path), child.key)\<close> for a path without
      regular-expression operators: the group, when the match succeeds\<close>
  "match_pkey_key pkey_path key =
     (let n = length pkey_path; r = drop (n + 1) key in
      if take n key = pkey_path \<and> take 1 (drop n key) = ''/'' \<and> take 2 r = ''0x'' \<and>
         length (take 4 (drop 2 r)) = 4 \<and> list_all is_digit (take 4 (drop 2 r)) \<and> at_end (drop 6 r)
      then Some (take 6 r) else None)"

fun pkey_daemon_scan :: "string \<Rightarrow> (string \<times> yaml option) list \<Rightarrow> (string \<times> yaml) list \<Rightarrow>
    (string \<times> yaml) list" where
  \<comment> \<open>the loop over \<open>ret.children\<close> of \<open>VIBNetwork.pkey_daemon\<close>, which fills \<open>pkeys\<close>.
      A child is its key and what \<open>yaml.safe_load\<close> makes of its value, \<open>None\<close> standing
      for a YAMLError.\<close>
  "pkey_daemon_scan pkey_path [] pkeys = pkeys"
| "pkey_daemon_scan pkey_path ((key, v) # children) pkeys =
     (if key = pkey_path then pkey_daemon_scan pkey_path children pkeys
      else (case match_pkey_key pkey_path key of
              None \<Rightarrow> pkey_daemon_scan pkey_path children pkeys
            | Some pkey \<Rightarrow>
                (case v of
                   None \<Rightarrow> pkey_daemon_scan pkey_path children pkeys
                 | Some config \<Rightarrow>
                     if pkey_entry_valid config
                     then pkey_daemon_scan pkey_path children (AList.update pkey config pkeys)
                     else pkey_daemon_scan pkey_path children pkeys)))"

definition pkey_daemon_pkeys :: "string \<Rightarrow> (string \<times> yaml option) list \<Rightarrow> (string \<times> yaml) list" where
  \<comment> \<open>the dictionary \<open>pkeys\<close> the daemon renders into the partition file\<close>
  "pkey_daemon_pkeys pkey_path children = pkey_daemon_scan pkey_path children []"


section \<open>Scenarios\<close>

text \<open>
  A host of rank 0 with nothing configured yet, the NAT network of the end-to-end
  scenarios (reverse NAT on the single host port 10022; the VM network has a /24 prefix and
  the NAT network a /16 prefix), and VMs attached to the network \<open>net\<close>.
\<close>

definition host0 :: host where
  "host0 = \<lparr>node_rank = 0, batchuser = ''user'', host_addr = ''10.0.0.1'',
             resolve_host = (\<lambda>h. h), environ = [], entropy = [], netdevs = [], vfio_devs = [],
             virtfns = (\<lambda>d. []), ovs_bridges = [], ovs_ports = [], ipt_rules = [], sysfs = [],
             phys_port_guid = (\<lambda>d. ''0x0002c90300a0b0c1''), pkey_ready_after = 0,
             dnsmasq_running = False, kv = [], kv_reads = [], calls = []\<rparr>"

definition nat0 :: nat_net where
  "nat0 = \<lparr>nat_name = ''net'', nat_bridge_name = ''natbr0'', nat_network = ''10.252.0.0'',
            nat_network_bits = 16, vm_network = ''10.250.0.0'', vm_network_bits = 24,
            vm_network_gw = ''10.250.0.1'', vm_ip = ''10.250.0.2'', nat_tap_prefix = ''nattap'',
            nat_mtu = 1500, vm_hwaddr = ''52:54:00:01:02:03'', bridge_hwaddr = ''52:54:00:C0:C0:C0'',
            domain_name = [], dns_server = [], ntp_server = [], allow_outbound = True,
            nat_rnat = Some (22, 10022, 10022)\<rparr>"

definition vm_at :: "int \<Rightarrow> int \<Rightarrow> vm" where
  \<comment> \<open>the VM of a rank on the host of a rank, attached to \<open>net\<close>\<close>
  "vm_at r h = \<lparr>vm_rank = r, vm_host_rank = h, vm_host = ''host'' @ fmt_d h, vm_networks = [''net'']\<rparr>"

definition pci0 :: pci_net where
  "pci0 = \<lparr>pci_name = ''net'', device_addrs = [''0000:01:00.0''], host_driver = ''nvme''\<rparr>"

definition ibhost0 :: host where
  \<comment> \<open>the host of rank 0 with one free virtual function of the device \<open>mlx5_0\<close>\<close>
  "ibhost0 = host0\<lparr>virtfns := (\<lambda>d. if d = ''mlx5_0'' then [(''virtfn0'', ''0000:03:00.1'')] else [])\<rparr>"

definition pkey_entry0 :: yaml where
  \<comment> \<open>a partition entry that satisfies the schema\<close>
  "pkey_entry0 = YMap [(''vf_guids'', YList [YStr ''0xc0cc800a00000000'']),
                       (''host_guids'', YList [YStr ''0x0002c90300a0b0c1''])]"

definition bridged0 :: bridged_net where
  "bridged0 = \<lparr>br_name = ''net'', br_host_bridge = ''br0'', br_tap_prefix = ''brtap'', br_mtu = 1500\<rparr>"

definition pv0 :: pv_net where
  "pv0 = \<lparr>pv_name = ''net'', mac_prefix = ''52:54:00'', bridge_prefix = ''pvbr'', pv_tap_prefix = ''pvtap'',
           pv_mtu = 1500, host_if_suffix = []\<rparr>"

definition ib0 :: ib_net where
  "ib0 = \<lparr>ib_name = ''net'', ib_device_name = ''mlx5_0'', min_pkey = 0x8000, max_pkey = 0x8003,
           license_name = None, opensm_partition_cfg = ''/etc/opensm/partitions.conf'',
           opensm_partition_tpl = ''/etc/opensm/partitions.conf.tpl'', opensm_daemon = ''opensm''\<rparr>"

section \<open>Properties of the formatting functions\<close>

lemma of_char_hexdigit:
  assumes "d < 16"
  shows "(of_char (hexdigit d) :: nat) = (if d < 10 then 48 + d else 87 + d)"
proof -
  from assms have "d \<in> {0, 1, 2, 3, 4, 5, 6, 7, 8, 9, 10, 11, 12, 13, 14, 15}" by simp arith
  then show ?thesis by (auto simp: hexdigit_def)
qed

lemma hexval_char_hexdigit: "d < 16 \<Longrightarrow> hexval_char (hexdigit d) = d"
  by (simp add: hexval_char_def of_char_hexdigit Let_def)

lemma hex_nat_chars: "c \<in> set (hex_nat n) \<Longrightarrow> \<exists>d<16. c = hexdigit d"
proof (induction n rule: hex_nat.induct)
  case (1 n)
  show ?case
  proof (cases "n < 16")
    case True
    with 1(2) show ?thesis by (subst (asm) hex_nat.simps) auto
  next
    case False
    with 1(2) have "c \<in> set (hex_nat (n div 16)) \<or> c = hexdigit (n mod 16)"
      by (subst (asm) hex_nat.simps) auto
    then show ?thesis
    proof
      assume "c \<in> set (hex_nat (n div 16))"
      with 1(1)[OF False] show ?thesis .
    next
      assume "c = hexdigit (n mod 16)"
      moreover have "n mod 16 < 16" by simp
      ultimately show ?thesis by blast
    qed
  qed
qed

lemma hex_nat_plain:
  assumes "c \<in> set (hex_nat n)"
  shows "c \<noteq> CHR '':'' \<and> c \<noteq> CHR ''-'' \<and> c \<noteq> CHR ''+''"
proof -
  from assms obtain d where d: "d < 16" "c = hexdigit d" using hex_nat_chars by blast
  then have "(of_char c :: nat) = (if d < 10 then 48 + d else 87 + d)"
    by (simp add: of_char_hexdigit)
  then have "(of_char c :: nat) \<noteq> 58 \<and> (of_char c :: nat) \<noteq> 45 \<and> (of_char c :: nat) \<noteq> 43"
    using d(1) by (auto split: if_splits)
  then show ?thesis by auto
qed

lemma hexval_snoc: "hexval (s @ [c]) = 16 * hexval s + hexval_char c"
  by (simp add: hexval_def)

lemma hexval_hex_nat: "hexval (hex_nat n) = n"
proof (induction n rule: hex_nat.induct)
  case (1 n)
  show ?case
  proof (cases "n < 16")
    case True
    then show ?thesis by (subst hex_nat.simps) (simp add: hexval_def hexval_char_hexdigit)
  next
    case False
    with 1 have "hexval (hex_nat (n div 16)) = n div 16" by simp
    with False show ?thesis
      by (subst hex_nat.simps) (simp add: hexval_snoc hexval_char_hexdigit)
  qed
qed

lemma hexval_zeros: "hexval (replicate k (CHR ''0'') @ s) = hexval s"
proof -
  have z: "hexval_char (CHR ''0'') = 0" by (simp add: hexval_char_def)
  have "foldl (\<lambda>a c. 16 * a + hexval_char c) 0 (replicate k (CHR ''0'')) = 0"
    by (induction k) (simp_all add: z)
  then show ?thesis by (simp add: hexval_def)
qed

lemma hex_nat_nonempty: "hex_nat n \<noteq> []"
  by (subst hex_nat.simps) simp

lemma zfill_hex_nat:
  "zfill (hex_nat n) w = replicate (nat w - length (hex_nat n)) (CHR ''0'') @ hex_nat n"
proof (cases "hex_nat n")
  case Nil
  then show ?thesis using hex_nat_nonempty by blast
next
  case (Cons c cs)
  then have "c \<in> set (hex_nat n)" by simp
  then have "c \<noteq> CHR ''-'' \<and> c \<noteq> CHR ''+''" using hex_nat_plain by blast
  with Cons show ?thesis by (auto simp: zfill_def)
qed

lemma length_hex_nat: "0 < w \<Longrightarrow> n < 16 ^ w \<Longrightarrow> length (hex_nat n) \<le> w"
proof (induction n arbitrary: w rule: hex_nat.induct)
  case (1 n)
  show ?case
  proof (cases "n < 16")
    case True
    with 1(2) show ?thesis by (subst hex_nat.simps) simp
  next
    case False
    with 1(3) have w: "1 < w" by (cases w; cases "w - 1"; auto)
    then obtain w' where w': "w = Suc w'" "0 < w'" by (cases w) auto
    from 1(3) w' have "n div 16 < 16 ^ w'" by (simp add: less_mult_imp_div_less mult.commute)
    with 1(1)[OF False w'(2)] have "length (hex_nat (n div 16)) \<le> w'" by simp
    with False w' show ?thesis by (subst hex_nat.simps) simp
  qed
qed

lemma strip_join_slices2: "CHR '':'' \<notin> set s \<Longrightarrow> strip_colons (join '':'' (slices2 s)) = s"
proof (induction s rule: slices2.induct)
  case (3 a b cs)
  then show ?case by (cases cs rule: slices2.cases) (auto simp: strip_colons_def)
qed (auto simp: strip_colons_def)

section \<open>Private-overlay MAC addresses\<close>

lemma mac_prefix_groups_len:
  "mac_prefix_groups k p \<Longrightarrow> 2 \<le> length (strip_colons p) \<and> length (strip_colons p) \<le> 2 * k + 3"
proof (induction k p rule: mac_prefix_groups.induct)
  case (1 k a b rest)
  then have ab: "is_hexchar a" "is_hexchar b" by simp_all
  then have nc: "a \<noteq> CHR '':''" "b \<noteq> CHR '':''" by (auto simp: is_hexchar_def)
  show ?case
  proof (cases rest)
    case Nil
    with nc show ?thesis by (simp add: strip_colons_def)
  next
    case (Cons c rest')
    show ?thesis
    proof (cases "c = CHR 0x0A \<and> rest' = []")
      case True
      with Cons nc show ?thesis by (simp add: strip_colons_def)
    next
      case False
      with 1(2) Cons obtain j where j: "c = CHR '':''" "k = Suc j" "mac_prefix_groups j rest'"
        by (auto split: nat.splits)
      from 1(1)[OF Cons j(2) j(3)] j nc Cons show ?thesis
        by (simp add: strip_colons_def)
    qed
  qed
qed simp_all

lemma gen_vm_hwaddr_nonneg:
  assumes "0 \<le> vm_rank v"
  shows "gen_vm_hwaddr p v = p @ '':'' @
           join '':'' (slices2 (replicate (nat (12 - int (mac_prefix_len p)) -
                                           length (hex_nat (nat (vm_rank v)))) (CHR ''0'')
                                @ hex_nat (nat (vm_rank v))))"
  using assms by (simp add: gen_vm_hwaddr_def fmt_x_def zfill_hex_nat mac_prefix_len_def Let_def)

lemma padded_no_colon: "CHR '':'' \<notin> set (replicate k (CHR ''0'') @ hex_nat n)"
  using hex_nat_plain[of "CHR '':''" n] by auto

text \<open>
  C8. The MAC of a VM on a private-overlay network depends on the MAC prefix and the rank
  of the VM only. For a prefix the schema accepts and a rank in
  \<open>[0, 16^(12 - prefix_len))\<close> it is the prefix, a colon, and the rank in hexadecimal,
  padded with zeros to \<open>12 - prefix_len\<close> digits and cut in pairs by colons; two
  distinct ranks of that range never get the same MAC.
\<close>

theorem pv_mac_deterministic_injective:
  assumes ok: "mac_prefix_ok p"
    and v: "0 \<le> vm_rank v" "vm_rank v < 16 ^ (12 - mac_prefix_len p)"
    and w: "0 \<le> vm_rank w" "vm_rank w < 16 ^ (12 - mac_prefix_len p)"
  shows "(\<exists>sfx. gen_vm_hwaddr p v = p @ '':'' @ sfx \<and>
                length (strip_colons sfx) = 12 - mac_prefix_len p \<and>
                int (hexval (strip_colons sfx)) = vm_rank v) \<and>
         (vm_rank v = vm_rank w \<longrightarrow> gen_vm_hwaddr p v = gen_vm_hwaddr p w) \<and>
         (vm_rank v \<noteq> vm_rank w \<longrightarrow> gen_vm_hwaddr p v \<noteq> gen_vm_hwaddr p w)"
proof -
  let ?W = "12 - mac_prefix_len p"
  let ?pad = "\<lambda>x. replicate (nat (12 - int (mac_prefix_len p)) -
                              length (hex_nat (nat (vm_rank x)))) (CHR ''0'')
                  @ hex_nat (nat (vm_rank x))"
  from ok have len: "2 \<le> mac_prefix_len p" "mac_prefix_len p \<le> 9"
    using mac_prefix_groups_len[of 3 p] by (simp_all add: mac_prefix_ok_def mac_prefix_len_def)
  then have W: "0 < ?W" "nat (12 - int (mac_prefix_len p)) = ?W" by simp_all
  have strip: "strip_colons (join '':'' (slices2 (?pad x))) = ?pad x" for x
    by (rule strip_join_slices2) (rule padded_no_colon)
  have val: "int (hexval (?pad x)) = vm_rank x" if "0 \<le> vm_rank x" for x
    using that by (simp add: hexval_zeros hexval_hex_nat)
  have "nat (vm_rank v) < 16 ^ ?W" using v by (simp add: nat_less_iff)
  then have "length (hex_nat (nat (vm_rank v))) \<le> ?W" using W(1) by (rule length_hex_nat[rotated])
  then have lenv: "length (?pad v) = ?W" using W(2) by simp
  have fmt: "\<exists>sfx. gen_vm_hwaddr p v = p @ '':'' @ sfx \<and>
                length (strip_colons sfx) = ?W \<and> int (hexval (strip_colons sfx)) = vm_rank v"
    using gen_vm_hwaddr_nonneg[OF v(1), of p] strip[of v] val[OF v(1)] lenv by auto
  have pure: "vm_rank v = vm_rank w \<longrightarrow> gen_vm_hwaddr p v = gen_vm_hwaddr p w"
    by (simp add: gen_vm_hwaddr_def)
  have inj: "vm_rank v \<noteq> vm_rank w \<longrightarrow> gen_vm_hwaddr p v \<noteq> gen_vm_hwaddr p w"
  proof (intro impI notI)
    assume ne: "vm_rank v \<noteq> vm_rank w" and eq: "gen_vm_hwaddr p v = gen_vm_hwaddr p w"
    from eq have "join '':'' (slices2 (?pad v)) = join '':'' (slices2 (?pad w))"
      by (simp add: gen_vm_hwaddr_nonneg[OF v(1)] gen_vm_hwaddr_nonneg[OF w(1)])
    then have "strip_colons (join '':'' (slices2 (?pad v))) =
               strip_colons (join '':'' (slices2 (?pad w)))"
      by simp
    then have "?pad v = ?pad w" by (simp only: strip)
    then have "int (hexval (?pad v)) = int (hexval (?pad w))" by simp
    with val[OF v(1)] val[OF w(1)] ne show False by simp
  qed
  from fmt pure inj show ?thesis by blast
qed

theorem pv_mac_deterministic_injective_witness:
  "mac_prefix_ok ''52:54:00'' \<and>
   gen_vm_hwaddr ''52:54:00'' \<lparr>vm_rank = 1, vm_host_rank = 0, vm_host = ''a'', vm_networks = []\<rparr> \<noteq>
   gen_vm_hwaddr ''52:54:00'' \<lparr>vm_rank = 258, vm_host_rank = 1, vm_host = ''b'', vm_networks = []\<rparr>"
  using pv_mac_deterministic_injective
          [of "''52:54:00''"
              "\<lparr>vm_rank = 1, vm_host_rank = 0, vm_host = ''a'', vm_networks = []\<rparr>"
              "\<lparr>vm_rank = 258, vm_host_rank = 1, vm_host = ''b'', vm_networks = []\<rparr>"]
  by (simp add: mac_prefix_ok_def is_hexchar_def mac_prefix_len_def strip_colons_def)

section \<open>Evaluation\<close>

lemmas fmt_defs = fmt_d_def fmt_x_def dec_nat.simps hex_nat.simps hexdigit_def zfill_def fmt_02x_def

lemmas os_defs = call_def tun_create_tap_def tun_delete_tap_def dev_enable_def ip_set_mtu_def
  bridge_add_port_def ip_arp_add_def ip_arp_del_def ovs_del_flows_def ovs_add_flow_def
  ovs_add_bridge_def ovs_del_bridge_def ovs_bridge_exists_def ovs_get_port_id_def ovs_next_port_def
  ovs_add_port_def ovs_del_port_def ipt_table_def ipt_rule_exists_def ipt_append_rule_def
  ipt_append_rule_idemp_def ipt_delete_rule_def ipt_delete_rule_idemp_def py_split_def is_space_def

lemmas ip_defs = dotted_quad_to_num_def quad_part_ok_def num_to_dotted_quad_def make_mask_def
  network_mask_def get_ip_on_network_def ip_add_def ip_add_idemp_def is_digit_def dec_val_def

lemmas dev_defs = match_prefix_digits_def dev_name_from_id_def id_from_dev_name_def
  find_used_dev_ids_def find_free_dev_id_def find_free_dev_name_def

lemmas kv_defs = key_path_def write_key_def read_key_def delete_key_def under_dir_def delete_dir_def
  wait_child_count_def dump_resources_def load_resources_def load_if_unset_def not_res_def
  subscript_def subscript_opt_def str_of_def has_key_def int_of_yaml_def

lemmas nat_defs = kill_dnsmasq_def has_dnsmasq_def rule_ssh_def rule_established_in_def
  rule_out_all_def rule_out_established_def rule_masq_proto_def rule_masq_def rule_dnat_def
  start_dnsmasq_def nat_init_node_def nat_cleanup_node_def vm_ip_from_id_def nat_alloc_vm_res_def
  nat_alloc_node_resources_def nat_cleanup_vm_res_def nat_free_node_resources_def
  nat_load_node_resources_def is_on_node_def uses_net_def vm_res_label_def

section \<open>Partial failure of an allocation\<close>

text \<open>
  C5. The claim is that every network type writes the record of what it has allocated so
  far before an exception leaves \<open>alloc_node_resources\<close>. The NAT type does not: with
  the single host port 10022 for reverse NAT and two local VMs, the first VM is set up
  (TAP, flows, ARP entry, DNAT rules), the second fails for want of a host port, and the
  exception leaves with no allocation record of the host in the store.
\<close>

theorem nat_alloc_partial_failure_not_persisted:
  "fst (nat_alloc_node_resources nat0 [vm_at 0 0, vm_at 1 0] host0) =
     Inl (NetworkSetupError ''Unable to find a free host port for reverse NAT'') \<and>
   map_of (kv (snd (nat_alloc_node_resources nat0 [vm_at 0 0, vm_at 1 0] host0))) ''cluster/net/0'' =
     None"
  by (simp add: nat0_def host0_def vm_at_def fmt_defs os_defs ip_defs dev_defs kv_defs nat_defs Let_def)

section \<open>Generic-PCI allocation without a free device\<close>

lemma pci_pick_all_bound:
  assumes "set (device_addrs n) \<subseteq> set (vfio_devs s)"
  shows "pci_pick_device n s = Inl IndexError"
proof -
  from assms have "filter (\<lambda>dev_addr. dev_addr \<notin> set (vfio_devs s)) (device_addrs n) = []"
    by (auto simp: filter_empty_conv)
  then show ?thesis by (simp add: pci_pick_device_def pci_list_vfio_devices_def)
qed

text \<open>
  C7. The claim is that a generic-PCI allocation with every configured address already
  bound to the passthrough driver fails with the setup error that reports that no free PCI
  device was found. The message of that error is formatted with the field \<open>{1}\<close> and one
  argument, so what is raised is Python's IndexError.
\<close>

theorem pci_alloc_all_bound_raises_index_error:
  "fst (pci_alloc_node_resources pci0 [vm_at 0 0] (host0\<lparr>vfio_devs := [''0000:01:00.0'']\<rparr>)) =
     Inl IndexError"
  by (simp add: pci_alloc_node_resources_def pci0_def vm_at_def host0_def is_on_node_def
        uses_net_def pci_pick_all_bound)

section \<open>Partition-key daemon\<close>

text \<open>
  C2. The claim is that every child \<open>0x\<close> plus four hexadecimal digits with a valid
  value is rendered. The daemon matches four decimal digits (\<open>\d\<close>), so the valid
  entry of the partition key \<open>0x800a\<close> is skipped.
\<close>

theorem pkey_daemon_skips_hex_pkey:
  "pkey_entry_valid pkey_entry0 \<and>
   pkey_daemon_pkeys ''global/opensm/pkeys''
     [(''global/opensm/pkeys/0x800a'', Some pkey_entry0)] = []"
  by (simp add: pkey_daemon_pkeys_def match_pkey_key_def is_digit_def at_end_def Let_def
        pkey_entry0_def pkey_entry_valid_def guid_list_ok_def guid_ok_def is_alnum_def)

lemma pkey_daemon_keeps_decimal_pkey:
  "pkey_daemon_pkeys ''global/opensm/pkeys''
     [(''global/opensm/pkeys'', None), (''global/opensm/pkeys/0x8001'', Some pkey_entry0),
      (''global/opensm/pkeys/0x8002'', None), (''global/opensm/pkeys/0x8003'', Some (YMap []))] =
   [(''0x8001'', pkey_entry0)]"
  by (simp add: pkey_daemon_pkeys_def match_pkey_key_def is_digit_def at_end_def Let_def
        pkey_entry0_def pkey_entry_valid_def guid_list_ok_def guid_ok_def is_alnum_def)

section \<open>Nodes without a VM of the network\<close>

lemma br_free_loop_skip:
  "\<forall>v\<in>set cluster. \<not> (is_on_node v s \<and> uses_net (br_name n) v) \<Longrightarrow>
   br_free_loop n cluster r s = (Inr (), s)"
  by (induction cluster) auto

lemma br_load_loop_skip:
  "\<forall>v\<in>set cluster. \<not> (is_on_node v s \<and> uses_net (br_name n) v) \<Longrightarrow>
   br_load_loop n cluster r s = (Inr (), s)"
  by (induction cluster) auto

lemma nat_free_loop_skip:
  "\<forall>v\<in>set cluster. \<not> (is_on_node v s \<and> uses_net (nat_name n) v) \<Longrightarrow>
   nat_free_loop n cluster r s = (Inr (), s)"
  by (induction cluster) auto

lemma nat_load_loop_skip:
  "\<forall>v\<in>set cluster. \<not> (is_on_node v s \<and> uses_net (nat_name n) v) \<Longrightarrow>
   nat_load_loop n cluster r s = (Inr (), s)"
  by (induction cluster) auto

lemma pv_free_loop_skip:
  "\<forall>v\<in>set cluster. \<not> (is_on_node v s \<and> uses_net (pv_name n) v) \<Longrightarrow>
   pv_free_loop n cluster r b m s = (Inr (r, b, m), s)"
  by (induction cluster) auto

lemma pv_load_loop_skip:
  "\<forall>v\<in>set cluster. \<not> (is_on_node v s \<and> uses_net (pv_name n) v) \<Longrightarrow>
   pv_load_loop n cluster r s = (Inr (), s)"
  by (induction cluster) auto

text \<open>
  C10. On a node that runs no VM of the network, \<open>free_node_resources\<close> and
  \<open>load_node_resources\<close> of the bridged, NAT and private-overlay types return without
  an error and leave the whole state as it was: nothing is read from the key-value store
  (the log of reads is part of the state), no helper is called, no record is needed. The
  node rank is a rank, hence not negative: the private-overlay type compares it with the
  initial value \<open>-1\<close> of \<open>master\<close>.
\<close>

theorem no_local_vm_free_load_noop:
  assumes br: "\<forall>v\<in>set cluster. \<not> (is_on_node v s \<and> uses_net (br_name bn) v)"
    and na: "\<forall>v\<in>set cluster. \<not> (is_on_node v s \<and> uses_net (nat_name nn) v)"
    and pv: "\<forall>v\<in>set cluster. \<not> (is_on_node v s \<and> uses_net (pv_name pn) v)"
    and rank: "0 \<le> node_rank s"
  shows "br_free_node_resources bn cluster s = (Inr (), s) \<and>
         br_load_node_resources bn cluster s = (Inr (), s) \<and>
         nat_free_node_resources nn cluster s = (Inr (), s) \<and>
         nat_load_node_resources nn cluster s = (Inr (), s) \<and>
         pv_free_node_resources pn cluster s = (Inr (), s) \<and>
         pv_load_node_resources pn cluster s = (Inr (), s)"
proof -
  have "pv_free_node_resources pn cluster s = (Inr (), s)"
    using rank by (simp add: pv_free_node_resources_def pv_free_loop_skip[OF pv])
  then show ?thesis
    by (simp add: br_free_node_resources_def br_load_node_resources_def
          nat_free_node_resources_def nat_load_node_resources_def pv_load_node_resources_def
          br_free_loop_skip[OF br] br_load_loop_skip[OF br]
          nat_free_loop_skip[OF na] nat_load_loop_skip[OF na] pv_load_loop_skip[OF pv])
qed

theorem no_local_vm_free_load_noop_witness:
  "0 \<le> node_rank host0 \<and> \<not> is_on_node (vm_at 0 1) host0 \<and>
   br_free_node_resources bridged0 [vm_at 0 1] host0 = (Inr (), host0) \<and>
   br_load_node_resources bridged0 [vm_at 0 1] host0 = (Inr (), host0) \<and>
   nat_free_node_resources nat0 [vm_at 0 1] host0 = (Inr (), host0) \<and>
   nat_load_node_resources nat0 [vm_at 0 1] host0 = (Inr (), host0) \<and>
   pv_free_node_resources pv0 [vm_at 0 1] host0 = (Inr (), host0) \<and>
   pv_load_node_resources pv0 [vm_at 0 1] host0 = (Inr (), host0)"
proof -
  have a: "\<not> is_on_node (vm_at 0 1) host0" "0 \<le> node_rank host0"
    by (simp_all add: is_on_node_def vm_at_def host0_def)
  from a no_local_vm_free_load_noop[of "[vm_at 0 1]" host0 bridged0 nat0 pv0] show ?thesis by simp
qed

section \<open>The master host\<close>

lemma hd_sort_Min: "xs \<noteq> [] \<Longrightarrow> hd (sort xs) = Min (set (xs :: int list))"
proof -
  assume ne: "xs \<noteq> []"
  then have "length (sort xs) \<noteq> 0" by simp
  then obtain y ys where s: "sort xs = y # ys" by (cases "sort xs") auto
  have srt: "sorted (y # ys)" using sorted_sort[of xs] s by simp
  have "set (sort xs) = set xs" by simp
  with s have st: "set xs = insert y (set ys)" by simp
  have "Min (insert y (set ys)) = y"
    by (rule Min_eqI) (use srt in auto)
  with s st show ?thesis by simp
qed

lemma sorted_hd_Min: "xs \<noteq> [] \<Longrightarrow> sorted xs \<Longrightarrow> hd xs = Min (set (xs :: int list))"
proof (cases xs)
  case (Cons y ys)
  assume "sorted xs"
  with Cons have "Min (insert y (set ys)) = y" by (intro Min_eqI) auto
  with Cons show ?thesis by simp
qed simp

lemma pv_find_master_gen:
  assumes "\<forall>v\<in>set cluster. 0 \<le> vm_host_rank v"
    and "pv_find_master name cluster m s = Some r"
  shows "r = (if m = - 1 then vm_host_rank (hd (filter (uses_net name) cluster)) else m) \<and>
         (\<exists>v\<in>set cluster. uses_net name v \<and> is_on_node v s)"
  using assms
proof (induction cluster arbitrary: m)
  case Nil
  then show ?case by simp
next
  case (Cons v vs)
  from Cons.prems have nn: "\<forall>v\<in>set vs. 0 \<le> vm_host_rank v" "0 \<le> vm_host_rank v" by simp_all
  show ?case
  proof (cases "uses_net name v")
    case False
    with Cons.prems(2) have f: "pv_find_master name vs m s = Some r" by simp
    from Cons.IH[OF nn(1) f] False show ?thesis by simp
  next
    case True
    let ?m' = "if m = - 1 then vm_host_rank v else m"
    show ?thesis
    proof (cases "is_on_node v s")
      case on: True
      with True Cons.prems(2) have "r = ?m'" by (simp add: Let_def)
      with True on show ?thesis by auto
    next
      case off: False
      with True Cons.prems(2) have f: "pv_find_master name vs ?m' s = Some r" by (simp add: Let_def)
      from nn(2) have ne: "?m' \<noteq> - 1" by auto
      from Cons.IH[OF nn(1) f] ne have "r = ?m'" and ex: "\<exists>v\<in>set vs. uses_net name v \<and> is_on_node v s"
        by (simp_all only: if_False)
      with True show ?thesis by auto
    qed
  qed
qed

lemma pv_find_master_some:
  "\<exists>v\<in>set cluster. uses_net name v \<and> is_on_node v s \<Longrightarrow> \<exists>r. pv_find_master name cluster m s = Some r"
  by (induction cluster arbitrary: m) (auto simp: Let_def)

text \<open>
  C4, as amended. The host ranks are not negative. For the IB type the master is the host
  with the lowest host rank among the hosts that carry a VM of the network, whatever the
  order of the VMs. For the private-overlay type the master is the host of the first VM of
  the network in the cluster descriptor, and a master is found exactly when the node runs a
  VM of the network; it is the lowest such host rank when the descriptor lists the VMs of
  the network in non-decreasing order of host rank.
\<close>

theorem master_host:
  assumes "\<forall>v\<in>set cluster. 0 \<le> vm_host_rank v"
  shows "(ib_net_vms n cluster s \<noteq> [] \<longrightarrow>
            ib_is_master n cluster s =
              (node_rank s = Min (set (map vm_host_rank (filter (uses_net (ib_name n)) cluster))))) \<and>
         (\<forall>m. pv_find_master name cluster (- 1) s = Some m \<longrightarrow>
            m = vm_host_rank (hd (filter (uses_net name) cluster)) \<and>
            (sorted (map vm_host_rank (filter (uses_net name) cluster)) \<longrightarrow>
               m = Min (set (map vm_host_rank (filter (uses_net name) cluster))))) \<and>
         ((\<exists>m. pv_find_master name cluster (- 1) s = Some m) =
            (\<exists>v\<in>set cluster. uses_net name v \<and> is_on_node v s))"
proof (intro conjI impI allI)
  assume ne: "ib_net_vms n cluster s \<noteq> []"
  then have "filter (uses_net (ib_name n)) cluster \<noteq> []"
    by (auto simp: ib_net_vms_def filter_empty_conv)
  then have "ib_net_hosts n cluster \<noteq> []" by (simp add: ib_net_hosts_def)
  then show "ib_is_master n cluster s =
      (node_rank s = Min (set (map vm_host_rank (filter (uses_net (ib_name n)) cluster))))"
    by (simp add: ib_is_master_def hd_sort_Min) (simp add: ib_net_hosts_def)
next
  fix m assume f: "pv_find_master name cluster (- 1) s = Some m"
  from pv_find_master_gen[OF assms f] show "m = vm_host_rank (hd (filter (uses_net name) cluster))" by simp
next
  fix m assume f: "pv_find_master name cluster (- 1) s = Some m"
    and srt: "sorted (map vm_host_rank (filter (uses_net name) cluster))"
  from pv_find_master_gen[OF assms f]
  have m: "m = vm_host_rank (hd (filter (uses_net name) cluster))"
    and ne: "filter (uses_net name) cluster \<noteq> []" by (auto simp: filter_empty_conv)
  from ne have "hd (map vm_host_rank (filter (uses_net name) cluster)) = m" using m by (simp add: hd_map)
  with sorted_hd_Min[OF _ srt] ne
  show "m = Min (set (map vm_host_rank (filter (uses_net name) cluster)))" by simp
next
  show "(\<exists>m. pv_find_master name cluster (- 1) s = Some m) =
        (\<exists>v\<in>set cluster. uses_net name v \<and> is_on_node v s)"
    using pv_find_master_gen[OF assms] pv_find_master_some by blast
qed

text \<open>
  C4 as stated fails for the private-overlay type: with the VM of rank 0 on host 1 listed
  before the VM of rank 1 on host 0, the master is host 1, and the lowest host rank is 0.
\<close>

theorem pv_master_not_lowest:
  "pv_find_master ''net'' [vm_at 0 1, vm_at 1 0] (- 1) host0 = Some 1 \<and>
   Min (set (map vm_host_rank (filter (uses_net ''net'') [vm_at 0 1, vm_at 1 0]))) = 0"
  by (simp add: vm_at_def host0_def uses_net_def is_on_node_def)

theorem master_host_witness:
  "0 \<le> vm_host_rank (vm_at 0 0) \<and> 0 \<le> vm_host_rank (vm_at 1 1) \<and>
   ib_net_vms ib0 [vm_at 0 0, vm_at 1 1] (host0\<lparr>node_rank := 1\<rparr>) \<noteq> [] \<and>
   \<not> ib_is_master ib0 [vm_at 0 0, vm_at 1 1] (host0\<lparr>node_rank := 1\<rparr>) \<and>
   pv_find_master ''net'' [vm_at 0 0, vm_at 1 1] (- 1) (host0\<lparr>node_rank := 1\<rparr>) = Some 0 \<and>
   Min (set (map vm_host_rank (filter (uses_net ''net'') [vm_at 0 0, vm_at 1 1]))) = 0"
proof -
  let ?s = "host0\<lparr>node_rank := 1\<rparr>"
  have a0: "0 \<le> vm_host_rank (vm_at 0 0)" "0 \<le> vm_host_rank (vm_at 1 1)"
    by (simp_all add: vm_at_def)
  then have a: "\<forall>v\<in>set [vm_at 0 0, vm_at 1 1]. 0 \<le> vm_host_rank v" by simp
  have b: "pv_find_master ''net'' [vm_at 0 0, vm_at 1 1] (- 1) ?s = Some 0"
    by (simp add: vm_at_def host0_def uses_net_def is_on_node_def)
  have c: "sorted (map vm_host_rank (filter (uses_net ''net'') [vm_at 0 0, vm_at 1 1]))"
    by (simp add: vm_at_def uses_net_def)
  have d: "ib_net_vms ib0 [vm_at 0 0, vm_at 1 1] ?s \<noteq> []"
    by (simp add: ib_net_vms_def ib0_def vm_at_def uses_net_def is_on_node_def host0_def)
  have e: "ib_name ib0 = ''net''" "node_rank ?s = 1" by (simp_all add: ib0_def)
  note m = master_host[OF a, of ib0 ?s "''net''"]
  from m b c have f: "(0::int) = Min (set (map vm_host_rank (filter (uses_net ''net'') [vm_at 0 0, vm_at 1 1])))"
    by blast
  from m d have "ib_is_master ib0 [vm_at 0 0, vm_at 1 1] ?s =
      (node_rank ?s = Min (set (map vm_host_rank (filter (uses_net (ib_name ib0)) [vm_at 0 0, vm_at 1 1]))))"
    by blast
  with e f have "\<not> ib_is_master ib0 [vm_at 0 0, vm_at 1 1] ?s" by simp
  with a0 b d f show ?thesis by simp
qed

section \<open>Freeing an IB network on the master host\<close>

lemma replicate_4: "replicate 4 x = [x, x, x, x]"
  by (simp add: eval_nat_numeral)

lemma guid_vm0: "vm_get_guid (vm_at 0 0) 32768 = ''0xc0cc800000000000''"
  by (simp add: vm_get_guid_def vm_at_def fmt_defs)

lemma node_guid_vm0: "vm_get_node_guid (vm_at 0 0) 32768 = ''0xd0cc800000000000''"
  by (simp add: vm_get_node_guid_def vm_at_def fmt_defs)

lemma py_hex_8000: "py_hex 32768 = ''0x8000''"
  by (simp add: py_hex_def fmt_defs)

lemma fmt_d_0: "fmt_d 0 = ''0''"
  by (simp add: fmt_defs)

lemma label_vm0: "vm_res_label (vm_at 0 0) = ''vm-0''"
  by (simp add: vm_res_label_def vm_at_def fmt_d_0)

lemma vm_at_0_0: "vm_host_rank (vm_at 0 0) = 0" "uses_net ''net'' (vm_at 0 0)"
  by (simp_all add: vm_at_def uses_net_def)

lemmas ida_defs = ida_bitmap_def ida_alloc_one_def ida_coll_alloc_one_def ida_free_one_def

lemmas vf_defs = device_vf_type_def pci_list_vfio_devices_def pci_enable_driver_def pci_bind_vfio_def
  pci_unbind_vfio_def vf_entries_def find_free_vf_def vf_id_from_addr_def guid_hex_to_col_def
  sriov_path_def sysfs_write_def vf_set_guid_def vf_unset_guid_def get_phys_port_guid_def

lemma ib_alloc_on_master:
  "fst (ib_alloc_node_resources ib0 [vm_at 0 0] ibhost0) = Inr () \<and>
   ib_is_master ib0 [vm_at 0 0] ibhost0 \<and>
   kv (snd (ib_alloc_node_resources ib0 [vm_at 0 0] ibhost0)) =
     [(''net/type/ib/key_alloc_state'', YList [YBool True, YBool False, YBool False, YBool False]),
      (''cluster/net_pkey'', YInt 0),
      (''cluster/net/name/net/guids/0'', YStr ''0x0002c90300a0b0c1''),
      (''global/opensm/pkeys/0x8000'',
         YMap [(''host_guids'', YList [YStr ''0x0002c90300a0b0c1'']),
               (''vf_guids'', YList [YStr ''0xc0cc800000000000''])]),
      (''cluster/net/0'',
         YMap [(''master'', YBool True), (''pkey'', YInt 32768), (''pkey_index'', YInt 0),
               (''vm-0'', YMap [(''vf_addr'', YStr ''0000:03:00.1'')])])] \<and>
   node_rank (snd (ib_alloc_node_resources ib0 [vm_at 0 0] ibhost0)) = 0"
  by (simp add: ib0_def ibhost0_def host0_def kv_defs ida_defs vf_defs
        ib_ida_key_def ib_ida_size_def ib_setup_vf_def ib_net_hosts_def
        ib_net_vms_def ib_is_master_def ib_sm_config_def ib_alloc_node_resources_def
        get_net_key_path_def is_on_node_def call_def match_prefix_digits_def is_digit_def
        dec_val_def Let_def replicate_4 guid_vm0 node_guid_vm0 py_hex_8000 fmt_d_0 label_vm0
        vm_at_0_0)

lemma ib_free_with_record:
  assumes "node_rank s = 0"
    and "map_of (kv s) ''cluster/net/0'' =
           Some (YMap [(''master'', YBool True), (''pkey'', YInt 32768), (''pkey_index'', YInt 0),
                       (''vm-0'', YMap [(''vf_addr'', YStr ''0000:03:00.1'')])])"
  shows "fst (ib_free_node_resources ib0 [vm_at 0 0] s) = Inl (NameError ''vf_unbind_vfio'')"
  using assms
  by (simp add: ib_free_node_resources_def ib0_def is_on_node_def kv_defs label_vm0 vm_at_0_0
        fmt_d_0)

lemma load_if_unset_kv: "kv (snd (load_if_unset name r s)) = kv s"
  by (simp add: load_if_unset_def load_resources_def read_key_def split: option.splits)

lemma free_node_vfs_kv: "kv (snd (free_node_vfs name dev cluster r s)) = kv s"
proof (induction cluster arbitrary: r s)
  case Nil
  then show ?case by simp
next
  case (Cons v vs)
  show ?case
  proof (cases "is_on_node v s \<and> uses_net name v")
    case False
    with Cons show ?thesis by auto
  next
    case True
    obtain x s1 where l: "load_if_unset name r s = (x, s1)" by (cases "load_if_unset name r s")
    then have "kv s1 = kv s" using load_if_unset_kv[of name r s] by simp
    with True l show ?thesis by (auto split: sum.splits)
  qed
qed

lemma ib_free_keeps_store: "kv (snd (ib_free_node_resources n cluster s)) = kv s"
proof -
  obtain x s1 where f: "free_node_vfs (ib_name n) (ib_device_name n) cluster None s = (x, s1)"
    by (cases "free_node_vfs (ib_name n) (ib_device_name n) cluster None s")
  then have "kv s1 = kv s"
    using free_node_vfs_kv[of "ib_name n" "ib_device_name n" cluster None s] by simp
  with f show ?thesis by (cases x) (simp_all add: ib_free_node_resources_def)
qed

text \<open>
  C1. The claim is that \<open>free_node_resources\<close> of the IB type, run on the master host
  after a successful \<open>alloc_node_resources\<close>, deletes the entry of the network under
  \<open>global/opensm/pkeys\<close>, frees the partition-key index and deletes the key-value
  subtree of the network. It does none of this: the store is left as the allocation wrote
  it (entry, allocator bit and subtree included), on this master and, by
  \<open>ib_free_keeps_store\<close>, on every input. The function keeps \<open>net_res = None\<close>, so
  the branch of the master can never run, and here \<open>_free_node_vfs\<close> has already
  raised NameError on the undefined \<open>vf_unbind_vfio\<close>.
\<close>

theorem ib_free_on_master_keeps_fabric_state:
  "fst (ib_alloc_node_resources ib0 [vm_at 0 0] ibhost0) = Inr () \<and>
   ib_is_master ib0 [vm_at 0 0] ibhost0 \<and>
   fst (ib_free_node_resources ib0 [vm_at 0 0]
          (snd (ib_alloc_node_resources ib0 [vm_at 0 0] ibhost0))) =
     Inl (NameError ''vf_unbind_vfio'') \<and>
   kv (snd (ib_free_node_resources ib0 [vm_at 0 0]
              (snd (ib_alloc_node_resources ib0 [vm_at 0 0] ibhost0)))) =
     [(''net/type/ib/key_alloc_state'', YList [YBool True, YBool False, YBool False, YBool False]),
      (''cluster/net_pkey'', YInt 0),
      (''cluster/net/name/net/guids/0'', YStr ''0x0002c90300a0b0c1''),
      (''global/opensm/pkeys/0x8000'',
         YMap [(''host_guids'', YList [YStr ''0x0002c90300a0b0c1'']),
               (''vf_guids'', YList [YStr ''0xc0cc800000000000''])]),
      (''cluster/net/0'',
         YMap [(''master'', YBool True), (''pkey'', YInt 32768), (''pkey_index'', YInt 0),
               (''vm-0'', YMap [(''vf_addr'', YStr ''0000:03:00.1'')])])]"
proof -
  let ?s = "snd (ib_alloc_node_resources ib0 [vm_at 0 0] ibhost0)"
  note a = ib_alloc_on_master
  from a have r: "node_rank ?s = 0" by blast
  from a have m: "map_of (kv ?s) ''cluster/net/0'' =
      Some (YMap [(''master'', YBool True), (''pkey'', YInt 32768), (''pkey_index'', YInt 0),
                  (''vm-0'', YMap [(''vf_addr'', YStr ''0000:03:00.1'')])])"
    by simp
  from ib_free_with_record[OF r m] a ib_free_keeps_store[of ib0 "[vm_at 0 0]" ?s]
  show ?thesis by simp
qed

section \<open>Firewall rules of the NAT type\<close>

lemma fmt_d_24: "fmt_d 24 = ''24''" by (simp add: fmt_defs)
lemma fmt_d_16: "fmt_d 16 = ''16''" by (simp add: fmt_defs)

lemma tok_ssh:
  assumes "fmt_d b = ''24'' \<or> fmt_d b = ''16''"
  shows "py_split (rule_ssh ''10.252.0.0'' b ''natbr0'') =
    [''-d'', ''10.252.0.0/'' @ fmt_d b, ''-o'', ''natbr0'', ''-p'', ''tcp'', ''-m'', ''tcp'',
     ''--dport'', ''22'', ''-m'', ''state'', ''--state'', ''NEW'', ''-j'', ''ACCEPT'']"
  using assms by (auto simp add: rule_ssh_def py_split_def is_space_def)

lemma tok_established_in:
  assumes "fmt_d b = ''24'' \<or> fmt_d b = ''16''"
  shows "py_split (rule_established_in ''10.252.0.0'' b ''natbr0'') =
    [''-d'', ''10.252.0.0/'' @ fmt_d b, ''-o'', ''natbr0'', ''-m'', ''state'', ''--state'',
     ''RELATED,ESTABLISHED'', ''-j'', ''ACCEPT'']"
  using assms by (auto simp add: rule_established_in_def py_split_def is_space_def)

lemma tok_out_all:
  assumes "fmt_d b = ''24'' \<or> fmt_d b = ''16''"
  shows "py_split (rule_out_all ''10.252.0.0'' b ''natbr0'') =
    [''-s'', ''10.252.0.0/'' @ fmt_d b, ''-i'', ''natbr0'', ''-j'', ''ACCEPT'']"
  using assms by (auto simp add: rule_out_all_def py_split_def is_space_def)

lemma tok_masq_proto:
  assumes "fmt_d b = ''24'' \<or> fmt_d b = ''16''" and "p = ''tcp'' \<or> p = ''udp''"
  shows "py_split (rule_masq_proto ''10.252.0.0'' b p) =
    [''-s'', ''10.252.0.0/'' @ fmt_d b, ''!'', ''-d'', ''10.252.0.0/'' @ fmt_d b, ''-p'', p,
     ''-j'', ''MASQUERADE'', ''--to-ports'', ''1024-65535'']"
  using assms by (auto simp add: rule_masq_proto_def py_split_def is_space_def)

lemma tok_masq:
  assumes "fmt_d b = ''24'' \<or> fmt_d b = ''16''"
  shows "py_split (rule_masq ''10.252.0.0'' b) =
    [''-s'', ''10.252.0.0/'' @ fmt_d b, ''!'', ''-d'', ''10.252.0.0/'' @ fmt_d b, ''-j'', ''MASQUERADE'']"
  using assms by (auto simp add: rule_masq_def py_split_def is_space_def)

lemmas toks = tok_ssh tok_established_in tok_out_all tok_masq_proto tok_masq fmt_d_24 fmt_d_16

lemma get_ip_bridge: "get_ip_on_network ''10.252.0.0'' 1 = Inr ''10.252.0.1''"
  by (simp add: ip_defs fmt_defs)

lemma ip_add_gw: "ip_add_idemp ''10.250.0.1'' 24 d s =
    (Inr (), call ''ip_add'' [''10.250.0.1/24'', ''10.250.0.255'', d] s)"
  by (simp add: ip_defs fmt_defs)

lemma ip_add_bridge: "ip_add_idemp ''10.252.0.1'' 24 d s =
    (Inr (), call ''ip_add'' [''10.252.0.1/24'', ''10.252.0.255'', d] s)"
  by (simp add: ip_defs fmt_defs)

lemma nat0_fields:
  "nat_name nat0 = ''net''" "nat_bridge_name nat0 = ''natbr0''" "nat_network nat0 = ''10.252.0.0''"
  "nat_network_bits nat0 = 16" "vm_network_bits nat0 = 24" "vm_network_gw nat0 = ''10.250.0.1''"
  "vm_ip nat0 = ''10.250.0.2''" "nat_tap_prefix nat0 = ''nattap''" "vm_hwaddr nat0 = ''52:54:00:01:02:03''"
  "bridge_hwaddr nat0 = ''52:54:00:C0:C0:C0''" "allow_outbound nat0" "nat_rnat nat0 = Some (22, 10022, 10022)"
  by (simp_all add: nat0_def)

lemma start_dnsmasq_nat0:
  "start_dnsmasq nat0 s =
     (Inr (), call ''dnsmasq'' [''/var/run/pcocc_dnsmasq.pid'', ''natbr0'', ''52:54:00:01:02:03'',
                ''10.250.0.2'', [], [], [], ''255.255.255.0'', ''10.250.0.1'', ''10.250.0.2'']
                (s\<lparr>dnsmasq_running := True\<rparr>))"
  by (simp add: start_dnsmasq_def nat0_def make_mask_def num_to_dotted_quad_def fmt_defs)

lemma ipt_frame:
  "ipt_rules (call f a s) = ipt_rules s"
  "ipt_rules (dev_enable nm s) = ipt_rules s"
  "ipt_rules (ovs_del_flows b fl s) = ipt_rules s"
  "ipt_rules (ovs_add_flow b t p m s) = ipt_rules s"
  "ipt_rules (ovs_add_bridge b h s) = ipt_rules s"
  "ipt_rules (ovs_del_bridge b s) = ipt_rules s"
  "ipt_rules (kill_dnsmasq s) = ipt_rules s"
  "ipt_rules (tun_delete_tap nm s) = ipt_rules s"
  by (simp_all add: call_def dev_enable_def ovs_del_flows_def ovs_add_flow_def ovs_add_bridge_def
        ovs_del_bridge_def kill_dnsmasq_def tun_delete_tap_def Let_def)

lemma ipt_rules_append_idemp:
  "ipt_rules (ipt_append_rule_idemp r c t s) =
     (if (ipt_table t, c, py_split r) \<in> set (ipt_rules s) then ipt_rules s
      else ipt_rules s @ [(ipt_table t, c, py_split r)])"
  by (simp add: ipt_append_rule_idemp_def ipt_rule_exists_def ipt_append_rule_def)

lemma ipt_rules_delete_idemp:
  "ipt_rules (ipt_delete_rule_idemp r c t s) = remove1 (ipt_table t, c, py_split r) (ipt_rules s)"
  by (simp add: ipt_delete_rule_idemp_def ipt_rule_exists_def ipt_delete_rule_def remove1_idem)

lemma nat_init_rules:
  assumes "ipt_rules s = []"
  shows "fst (nat_init_node nat0 s) = Inr () \<and>
         ipt_rules (snd (nat_init_node nat0 s)) =
           [(''filter'', ''FORWARD'',
               [''-d'', ''10.252.0.0/24'', ''-o'', ''natbr0'', ''-p'', ''tcp'', ''-m'', ''tcp'',
                ''--dport'', ''22'', ''-m'', ''state'', ''--state'', ''NEW'', ''-j'', ''ACCEPT'']),
            (''filter'', ''FORWARD'',
               [''-d'', ''10.252.0.0/24'', ''-o'', ''natbr0'', ''-m'', ''state'', ''--state'',
                ''RELATED,ESTABLISHED'', ''-j'', ''ACCEPT'']),
            (''filter'', ''FORWARD'', [''-s'', ''10.252.0.0/24'', ''-i'', ''natbr0'', ''-j'', ''ACCEPT'']),
            (''nat'', ''POSTROUTING'',
               [''-s'', ''10.252.0.0/24'', ''!'', ''-d'', ''10.252.0.0/24'', ''-p'', ''tcp'',
                ''-j'', ''MASQUERADE'', ''--to-ports'', ''1024-65535'']),
            (''nat'', ''POSTROUTING'',
               [''-s'', ''10.252.0.0/24'', ''!'', ''-d'', ''10.252.0.0/24'', ''-p'', ''udp'',
                ''-j'', ''MASQUERADE'', ''--to-ports'', ''1024-65535'']),
            (''nat'', ''POSTROUTING'',
               [''-s'', ''10.252.0.0/24'', ''!'', ''-d'', ''10.252.0.0/24'', ''-j'', ''MASQUERADE''])]"
proof -
  define s1 where "s1 =
    (if \<not> ovs_bridge_exists ''natbr0'' s
     then kill_dnsmasq (ovs_add_bridge ''natbr0'' (Some ''52:54:00:C0:C0:C0'') s)
     else ovs_add_bridge ''natbr0'' (Some ''52:54:00:C0:C0:C0'') s)"
  define s3 where "s3 =
    call ''ip_add'' [''10.252.0.1/24'', ''10.252.0.255'', ''natbr0'']
      (call ''ip_add'' [''10.250.0.1/24'', ''10.250.0.255'', ''natbr0''] s1)"
  define s4 where "s4 = (if \<not> has_dnsmasq s3 then snd (start_dnsmasq nat0 s3) else s3)"
  define s6 where "s6 =
    call ''shell'' [''iptables -P FORWARD DROP'']
      (call ''shell'' [''echo 1 > /proc/sys/net/ipv4/ip_forward''] s4)"
  define s7 where "s7 =
    ipt_append_rule_idemp (rule_ssh ''10.252.0.0'' 24 ''natbr0'') ''FORWARD'' None s6"
  define s8 where "s8 =
    ipt_append_rule_idemp (rule_established_in ''10.252.0.0'' 24 ''natbr0'') ''FORWARD'' None s7"
  define s9 where "s9 =
    ipt_append_rule_idemp (rule_out_all ''10.252.0.0'' 24 ''natbr0'') ''FORWARD'' None s8"
  define s10 where "s10 =
    ipt_append_rule_idemp (rule_masq_proto ''10.252.0.0'' 24 ''tcp'') ''POSTROUTING'' (Some ''nat'') s9"
  define s11 where "s11 =
    ipt_append_rule_idemp (rule_masq_proto ''10.252.0.0'' 24 ''udp'') ''POSTROUTING'' (Some ''nat'') s10"
  define s12 where "s12 =
    ipt_append_rule_idemp (rule_masq ''10.252.0.0'' 24) ''POSTROUTING'' (Some ''nat'') s11"
  have res: "fst (nat_init_node nat0 s) = Inr () \<and>
             ipt_rules (snd (nat_init_node nat0 s)) = ipt_rules s12"
    unfolding s12_def s11_def s10_def s9_def s8_def s7_def s6_def s4_def s3_def s1_def
    by (simp add: nat_init_node_def nat0_fields Let_def get_ip_bridge ip_add_gw ip_add_bridge
          start_dnsmasq_nat0 ipt_frame)
  have r1: "ipt_rules s1 = []" by (simp add: s1_def ipt_frame assms)
  have r3: "ipt_rules s3 = []" by (simp add: s3_def ipt_frame r1)
  have r4: "ipt_rules s4 = []" by (simp add: s4_def start_dnsmasq_nat0 ipt_frame r3)
  have r6: "ipt_rules s6 = []" by (simp add: s6_def ipt_frame r4)
  have r7: "ipt_rules s7 = [(''filter'', ''FORWARD'',
       [''-d'', ''10.252.0.0/24'', ''-o'', ''natbr0'', ''-p'', ''tcp'', ''-m'', ''tcp'',
        ''--dport'', ''22'', ''-m'', ''state'', ''--state'', ''NEW'', ''-j'', ''ACCEPT''])]"
    by (simp add: s7_def ipt_rules_append_idemp r6 ipt_table_def toks)
  have r8: "ipt_rules s8 = [(''filter'', ''FORWARD'',
       [''-d'', ''10.252.0.0/24'', ''-o'', ''natbr0'', ''-p'', ''tcp'', ''-m'', ''tcp'',
        ''--dport'', ''22'', ''-m'', ''state'', ''--state'', ''NEW'', ''-j'', ''ACCEPT'']),
      (''filter'', ''FORWARD'',
       [''-d'', ''10.252.0.0/24'', ''-o'', ''natbr0'', ''-m'', ''state'', ''--state'',
        ''RELATED,ESTABLISHED'', ''-j'', ''ACCEPT''])]"
    by (simp add: s8_def ipt_rules_append_idemp r7 ipt_table_def toks)
  have r9: "ipt_rules s9 = [(''filter'', ''FORWARD'',
       [''-d'', ''10.252.0.0/24'', ''-o'', ''natbr0'', ''-p'', ''tcp'', ''-m'', ''tcp'',
        ''--dport'', ''22'', ''-m'', ''state'', ''--state'', ''NEW'', ''-j'', ''ACCEPT'']),
      (''filter'', ''FORWARD'',
       [''-d'', ''10.252.0.0/24'', ''-o'', ''natbr0'', ''-m'', ''state'', ''--state'',
        ''RELATED,ESTABLISHED'', ''-j'', ''ACCEPT'']),
      (''filter'', ''FORWARD'', [''-s'', ''10.252.0.0/24'', ''-i'', ''natbr0'', ''-j'', ''ACCEPT''])]"
    by (simp add: s9_def ipt_rules_append_idemp r8 ipt_table_def toks)
  have r10: "ipt_rules s10 = [(''filter'', ''FORWARD'',
       [''-d'', ''10.252.0.0/24'', ''-o'', ''natbr0'', ''-p'', ''tcp'', ''-m'', ''tcp'',
        ''--dport'', ''22'', ''-m'', ''state'', ''--state'', ''NEW'', ''-j'', ''ACCEPT'']),
      (''filter'', ''FORWARD'',
       [''-d'', ''10.252.0.0/24'', ''-o'', ''natbr0'', ''-m'', ''state'', ''--state'',
        ''RELATED,ESTABLISHED'', ''-j'', ''ACCEPT'']),
      (''filter'', ''FORWARD'', [''-s'', ''10.252.0.0/24'', ''-i'', ''natbr0'', ''-j'', ''ACCEPT'']),
      (''nat'', ''POSTROUTING'',
       [''-s'', ''10.252.0.0/24'', ''!'', ''-d'', ''10.252.0.0/24'', ''-p'', ''tcp'',
        ''-j'', ''MASQUERADE'', ''--to-ports'', ''1024-65535''])]"
    by (simp add: s10_def ipt_rules_append_idemp r9 ipt_table_def toks)
  have r11: "ipt_rules s11 = [(''filter'', ''FORWARD'',
       [''-d'', ''10.252.0.0/24'', ''-o'', ''natbr0'', ''-p'', ''tcp'', ''-m'', ''tcp'',
        ''--dport'', ''22'', ''-m'', ''state'', ''--state'', ''NEW'', ''-j'', ''ACCEPT'']),
      (''filter'', ''FORWARD'',
       [''-d'', ''10.252.0.0/24'', ''-o'', ''natbr0'', ''-m'', ''state'', ''--state'',
        ''RELATED,ESTABLISHED'', ''-j'', ''ACCEPT'']),
      (''filter'', ''FORWARD'', [''-s'', ''10.252.0.0/24'', ''-i'', ''natbr0'', ''-j'', ''ACCEPT'']),
      (''nat'', ''POSTROUTING'',
       [''-s'', ''10.252.0.0/24'', ''!'', ''-d'', ''10.252.0.0/24'', ''-p'', ''tcp'',
        ''-j'', ''MASQUERADE'', ''--to-ports'', ''1024-65535'']),
      (''nat'', ''POSTROUTING'',
       [''-s'', ''10.252.0.0/24'', ''!'', ''-d'', ''10.252.0.0/24'', ''-p'', ''udp'',
        ''-j'', ''MASQUERADE'', ''--to-ports'', ''1024-65535''])]"
    by (simp add: s11_def ipt_rules_append_idemp r10 ipt_table_def toks)
  have r12: "ipt_rules s12 = [(''filter'', ''FORWARD'',
       [''-d'', ''10.252.0.0/24'', ''-o'', ''natbr0'', ''-p'', ''tcp'', ''-m'', ''tcp'',
        ''--dport'', ''22'', ''-m'', ''state'', ''--state'', ''NEW'', ''-j'', ''ACCEPT'']),
      (''filter'', ''FORWARD'',
       [''-d'', ''10.252.0.0/24'', ''-o'', ''natbr0'', ''-m'', ''state'', ''--state'',
        ''RELATED,ESTABLISHED'', ''-j'', ''ACCEPT'']),
      (''filter'', ''FORWARD'', [''-s'', ''10.252.0.0/24'', ''-i'', ''natbr0'', ''-j'', ''ACCEPT'']),
      (''nat'', ''POSTROUTING'',
       [''-s'', ''10.252.0.0/24'', ''!'', ''-d'', ''10.252.0.0/24'', ''-p'', ''tcp'',
        ''-j'', ''MASQUERADE'', ''--to-ports'', ''1024-65535'']),
      (''nat'', ''POSTROUTING'',
       [''-s'', ''10.252.0.0/24'', ''!'', ''-d'', ''10.252.0.0/24'', ''-p'', ''udp'',
        ''-j'', ''MASQUERADE'', ''--to-ports'', ''1024-65535'']),
      (''nat'', ''POSTROUTING'',
       [''-s'', ''10.252.0.0/24'', ''!'', ''-d'', ''10.252.0.0/24'', ''-j'', ''MASQUERADE''])]"
    by (simp add: s12_def ipt_rules_append_idemp r11 ipt_table_def toks)
  from res r12 show ?thesis by simp
qed

lemma delete_taps_rules: "ipt_rules (delete_taps prefix ids s) = ipt_rules s"
  by (induction ids arbitrary: s) (simp_all add: ipt_frame)

lemma nat_cleanup_rules:
  assumes "ipt_rules s =
           [(''filter'', ''FORWARD'',
               [''-d'', ''10.252.0.0/24'', ''-o'', ''natbr0'', ''-p'', ''tcp'', ''-m'', ''tcp'',
                ''--dport'', ''22'', ''-m'', ''state'', ''--state'', ''NEW'', ''-j'', ''ACCEPT'']),
            (''filter'', ''FORWARD'',
               [''-d'', ''10.252.0.0/24'', ''-o'', ''natbr0'', ''-m'', ''state'', ''--state'',
                ''RELATED,ESTABLISHED'', ''-j'', ''ACCEPT'']),
            (''filter'', ''FORWARD'', [''-s'', ''10.252.0.0/24'', ''-i'', ''natbr0'', ''-j'', ''ACCEPT'']),
            (''nat'', ''POSTROUTING'',
               [''-s'', ''10.252.0.0/24'', ''!'', ''-d'', ''10.252.0.0/24'', ''-p'', ''tcp'',
                ''-j'', ''MASQUERADE'', ''--to-ports'', ''1024-65535'']),
            (''nat'', ''POSTROUTING'',
               [''-s'', ''10.252.0.0/24'', ''!'', ''-d'', ''10.252.0.0/24'', ''-p'', ''udp'',
                ''-j'', ''MASQUERADE'', ''--to-ports'', ''1024-65535'']),
            (''nat'', ''POSTROUTING'',
               [''-s'', ''10.252.0.0/24'', ''!'', ''-d'', ''10.252.0.0/24'', ''-j'', ''MASQUERADE''])]"
  shows "ipt_rules (snd (nat_cleanup_node nat0 s)) =
           [(''filter'', ''FORWARD'',
               [''-d'', ''10.252.0.0/24'', ''-o'', ''natbr0'', ''-p'', ''tcp'', ''-m'', ''tcp'',
                ''--dport'', ''22'', ''-m'', ''state'', ''--state'', ''NEW'', ''-j'', ''ACCEPT'']),
            (''filter'', ''FORWARD'',
               [''-d'', ''10.252.0.0/24'', ''-o'', ''natbr0'', ''-m'', ''state'', ''--state'',
                ''RELATED,ESTABLISHED'', ''-j'', ''ACCEPT'']),
            (''nat'', ''POSTROUTING'',
               [''-s'', ''10.252.0.0/24'', ''!'', ''-d'', ''10.252.0.0/24'', ''-p'', ''tcp'',
                ''-j'', ''MASQUERADE'', ''--to-ports'', ''1024-65535'']),
            (''nat'', ''POSTROUTING'',
               [''-s'', ''10.252.0.0/24'', ''!'', ''-d'', ''10.252.0.0/24'', ''-p'', ''udp'',
                ''-j'', ''MASQUERADE'', ''--to-ports'', ''1024-65535'']),
            (''nat'', ''POSTROUTING'',
               [''-s'', ''10.252.0.0/24'', ''!'', ''-d'', ''10.252.0.0/24'', ''-j'', ''MASQUERADE''])]"
  using assms
  by (simp add: nat_cleanup_node_def nat0_fields Let_def ipt_frame ipt_rules_delete_idemp
        ipt_table_def toks delete_taps_rules split: sum.splits)

text \<open>
  C3. The claim is that after \<open>free_node_resources\<close> and \<open>cleanup_node\<close> no
  firewall rule of the NAT network remains, also when the NAT network and the VM network
  have different prefix lengths. \<open>init_node\<close> writes its rules with the prefix length of
  the VM network; \<open>cleanup_node\<close> deletes five of the six with the prefix length of the
  NAT network. With a /16 NAT network and a /24 VM network, on a host whose firewall was
  empty, those five rules are still there after the cleanup.
\<close>

theorem nat_cleanup_leaves_firewall_rules:
  "fst (nat_init_node nat0 host0) = Inr () \<and>
   nat_free_node_resources nat0 [] (snd (nat_init_node nat0 host0)) =
     (Inr (), snd (nat_init_node nat0 host0)) \<and>
   ipt_rules (snd (nat_cleanup_node nat0 (snd (nat_init_node nat0 host0)))) =
           [(''filter'', ''FORWARD'',
               [''-d'', ''10.252.0.0/24'', ''-o'', ''natbr0'', ''-p'', ''tcp'', ''-m'', ''tcp'',
                ''--dport'', ''22'', ''-m'', ''state'', ''--state'', ''NEW'', ''-j'', ''ACCEPT'']),
            (''filter'', ''FORWARD'',
               [''-d'', ''10.252.0.0/24'', ''-o'', ''natbr0'', ''-m'', ''state'', ''--state'',
                ''RELATED,ESTABLISHED'', ''-j'', ''ACCEPT'']),
            (''nat'', ''POSTROUTING'',
               [''-s'', ''10.252.0.0/24'', ''!'', ''-d'', ''10.252.0.0/24'', ''-p'', ''tcp'',
                ''-j'', ''MASQUERADE'', ''--to-ports'', ''1024-65535'']),
            (''nat'', ''POSTROUTING'',
               [''-s'', ''10.252.0.0/24'', ''!'', ''-d'', ''10.252.0.0/24'', ''-p'', ''udp'',
                ''-j'', ''MASQUERADE'', ''--to-ports'', ''1024-65535'']),
            (''nat'', ''POSTROUTING'',
               [''-s'', ''10.252.0.0/24'', ''!'', ''-d'', ''10.252.0.0/24'', ''-j'', ''MASQUERADE''])]"
proof -
  have e: "ipt_rules host0 = []" by (simp add: host0_def)
  note i = nat_init_rules[OF e]
  from i have r: "ipt_rules (snd (nat_init_node nat0 host0)) = ipt_rules (snd (nat_init_node nat0 host0))"
    by simp
  from i nat_cleanup_rules[of "snd (nat_init_node nat0 host0)"] show ?thesis
    by (simp add: nat_free_node_resources_def)
qed

section \<open>Host port of the reverse NAT\<close>















end
